theory Spec2Isabelle
  imports Main "HOL-Library.Word"
begin

unbundle bit_operations_syntax

section \<open>The debug-mode handle layer of HPy\<close>

text \<open>
  The development follows the internal header of the debug mode
  (\<^verbatim>\<open>debug_internal.h\<close>): the two kinds of handles, the wrapper record
  \<^verbatim>\<open>DebugHandle\<close>, the casts between a wrapped handle and its wrapper, the
  unwrapping function, the queues and the session record \<^verbatim>\<open>HPyDebugInfo\<close>.

  The target is an LP64 platform: a pointer, an \<^verbatim>\<open>HPy_ssize_t\<close> and a
  \<^verbatim>\<open>long\<close> are 64 bits wide (the header itself counts 8 bytes for the
  \<^verbatim>\<open>long generation\<close> field).  A pointer and the \<^verbatim>\<open>_i\<close> field of a
  handle are 64-bit words; the conversion between the two keeps every bit.
  Counters and byte sizes (\<^verbatim>\<open>long\<close>, \<^verbatim>\<open>HPy_ssize_t\<close>) are integers.
\<close>

subsection \<open>Handles\<close>

type_synonym addr = "64 word"

text \<open>\<^verbatim>\<open>struct _HPy_s { HPy_ssize_t _i; }\<close>: the field is read as \<^verbatim>\<open>h._i\<close>
  and a handle is built as \<^verbatim>\<open>(HPy){(HPy_ssize_t)p}\<close>.\<close>

record HPy =
  HPy_i :: "64 word"

type_synonym UHPy = HPy
type_synonym DHPy = HPy

text \<open>Modelled from the spec: the macros \<^verbatim>\<open>HPy_NULL\<close> and \<^verbatim>\<open>HPy_IsNull\<close>
  belong to the public header of HPy.  The null handle is the handle whose
  \<^verbatim>\<open>_i\<close> is 0; the internal header relies on it when it says that
  \<^verbatim>\<open>DHPy_sanity_check\<close> works on \<^verbatim>\<open>HPy_NULL\<close>.\<close>

definition HPy_NULL :: HPy where
  "HPy_NULL = \<lparr>HPy_i = 0\<rparr>"

text \<open>Modelled from the spec: the macro \<^verbatim>\<open>HPy_IsNull\<close> of the public header,
  the test for the null handle.\<close>

definition HPy_IsNull :: "HPy \<Rightarrow> bool" where
  "HPy_IsNull h = (HPy_i h = 0)"

text \<open>The null pointer of C.\<close>

definition NULL :: addr where
  "NULL = 0"

subsection \<open>Outcomes that are not a return\<close>

text \<open>
  \<^item> \<open>Assertion_failed\<close>: an \<^verbatim>\<open>assert\<close> of the source does not hold and the
    process is aborted (the assertions are compiled in);
  \<^item> \<open>Invalid_pointer\<close>: a pointer that does not point to a live wrapper is
    dereferenced (undefined behaviour in C);
  \<^item> \<open>Fatal_invalid_handle dh cb\<close>: the fatal path of \<^verbatim>\<open>DHPy_invalid_handle\<close>
    for the handle \<open>dh\<close>; \<open>cb\<close> says whether the session's callback was
    invoked before;
  \<^item> \<open>Signed_overflow\<close>: a \<^verbatim>\<open>long\<close> counter leaves its range.
\<close>

datatype error =
    Assertion_failed
  | Invalid_pointer
  | Fatal_invalid_handle DHPy bool
  | Signed_overflow

subsection \<open>Sanity checks on the low bit\<close>

definition DHPy_sanity_check :: "DHPy \<Rightarrow> error + unit" where
  "DHPy_sanity_check dh =
     (if HPy_i dh AND 1 = 0 then Inr () else Inl Assertion_failed)"

text \<open>The first argument says whether \<^verbatim>\<open>HPY_DEBUG_ENABLE_UHPY_SANITY_CHECK\<close> is
  defined at compile time.\<close>

definition UHPy_sanity_check :: "bool \<Rightarrow> UHPy \<Rightarrow> error + unit" where
  "UHPy_sanity_check enabled uh =
     (if enabled then
        (if \<not> HPy_IsNull uh then
           (if HPy_i uh AND 1 = 1 then Inr () else Inl Assertion_failed)
         else Inr ())
      else Inr ())"

subsection \<open>Wrappers and the casts\<close>

text \<open>\<^verbatim>\<open>struct DebugHandle\<close>.  The links \<^verbatim>\<open>prev\<close> and \<^verbatim>\<open>next\<close> thread the
  wrapper into one of the two queues of the session; they are represented by
  the position of the wrapper's address in the queue (see \<open>DHQueue\<close>).\<close>

record DebugHandle =
  uh :: UHPy
  generation :: int
  is_closed :: bool
  associated_data :: addr
  associated_data_size :: int

definition as_DebugHandle :: "DHPy \<Rightarrow> error + addr" where
  "as_DebugHandle dh =
     (case DHPy_sanity_check dh of
        Inl e \<Rightarrow> Inl e
      | Inr _ \<Rightarrow> Inr (HPy_i dh))"

definition as_DHPy :: "addr \<Rightarrow> DHPy" where
  "as_DHPy handle = \<lparr>HPy_i = handle\<rparr>"

subsection \<open>Queues and the session\<close>

text \<open>\<^verbatim>\<open>struct DHQueue\<close>: \<open>elems\<close> lists the addresses of the wrappers from
  \<^verbatim>\<open>head\<close> to \<^verbatim>\<open>tail\<close>, \<open>size_q\<close> is the counter \<^verbatim>\<open>size\<close> kept beside them.\<close>

record DHQueue =
  elems :: "addr list"
  size_q :: int

definition DEFAULT_CLOSED_HANDLES_QUEUE_MAX_SIZE :: int where
  "DEFAULT_CLOSED_HANDLES_QUEUE_MAX_SIZE = 1024"

definition DEFAULT_PROTECTED_RAW_DATA_MAX_SIZE :: int where
  "DEFAULT_PROTECTED_RAW_DATA_MAX_SIZE = 1024 * 1024 * 10"

definition HPY_DEBUG_MAGIC :: int where
  "HPY_DEBUG_MAGIC = 0xDEB00FF"

text \<open>\<^verbatim>\<open>struct HPyDebugInfo\<close>.  The pointer \<^verbatim>\<open>uctx\<close> to the underlying context
  is never followed here and is left out.\<close>

record HPyDebugInfo =
  magic_number :: int
  current_generation :: int
  uh_on_invalid_handle :: UHPy
  closed_handles_queue_max_size :: int
  protected_raw_data_max_size :: int
  protected_raw_data_size :: int
  open_handles :: DHQueue
  closed_handles :: DHQueue

text \<open>\<^verbatim>\<open>struct _HPyContext_s\<close>: of its fields only \<^verbatim>\<open>_private\<close> (here \<open>ctx_private\<close>) is used by the
  debug layer; the record holds what that pointer points to.\<close>

record HPyContext =
  ctx_private :: HPyDebugInfo

definition get_info :: "HPyContext \<Rightarrow> error + HPyDebugInfo" where
  "get_info dctx =
     (let info = ctx_private dctx in
      if magic_number info = HPY_DEBUG_MAGIC then Inr info
      else Inl Assertion_failed)"

subsection \<open>The machine state\<close>

text \<open>Calls on the collaborators of the layer that release or protect
  memory are recorded in the order in which they are made.\<close>

datatype event =
    Ev_free addr
  | Ev_raw_data_protect addr int
  | Ev_raw_data_free addr int

text \<open>The state threaded through every operation: the debug context with the
  session it points to, the wrappers that are allocated (a wrapper that was
  never allocated or has been freed has no entry), and the recorded calls.\<close>

record state =
  dctx :: HPyContext
  heap :: "addr \<rightharpoonup> DebugHandle"
  trace :: "event list"

definition info_of :: "state \<Rightarrow> HPyDebugInfo" where
  "info_of st = ctx_private (dctx st)"

definition set_info :: "state \<Rightarrow> HPyDebugInfo \<Rightarrow> state" where
  "set_info st info = st\<lparr>dctx := (dctx st)\<lparr>ctx_private := info\<rparr>\<rparr>"

definition deref :: "state \<Rightarrow> addr \<Rightarrow> error + DebugHandle" where
  "deref st p = (case heap st p of None \<Rightarrow> Inl Invalid_pointer | Some h \<Rightarrow> Inr h)"

subsection \<open>Unwrapping\<close>

text \<open>Modelled from the spec: \<^verbatim>\<open>DHPy_invalid_handle\<close> is declared in the header
  and defined elsewhere.  On a protocol violation the session's invalid-handle
  callback is invoked, if one is registered, and the call fails fatally: it
  does not return (as \<^verbatim>\<open>HPy_FatalError\<close> of \<^verbatim>\<open>hpy.h\<close>, which calls the
  context's \<^verbatim>\<open>ctx_FatalError\<close> and then \<^verbatim>\<open>abort\<close>).\<close>

definition DHPy_invalid_handle :: "state \<Rightarrow> DHPy \<Rightarrow> error + state" where
  "DHPy_invalid_handle st dh =
     (case get_info (dctx st) of
        Inl e \<Rightarrow> Inl e
      | Inr info \<Rightarrow>
          Inl (Fatal_invalid_handle dh (\<not> HPy_IsNull (uh_on_invalid_handle info))))"

text \<open>\<^verbatim>\<open>DHPy_unwrap\<close>, as the header defines it.  The field \<^verbatim>\<open>uh\<close> is read
  after \<^verbatim>\<open>DHPy_invalid_handle\<close> has returned.\<close>

definition DHPy_unwrap :: "state \<Rightarrow> DHPy \<Rightarrow> error + (UHPy \<times> state)" where
  "DHPy_unwrap st dh =
     (if HPy_IsNull dh then Inr (HPy_NULL, st)
      else
        (case as_DebugHandle dh of
           Inl e \<Rightarrow> Inl e
         | Inr handle \<Rightarrow>
             (case deref st handle of
                Inl e \<Rightarrow> Inl e
              | Inr h \<Rightarrow>
                  (case (if is_closed h then DHPy_invalid_handle st dh else Inr st) of
                     Inl e \<Rightarrow> Inl e
                   | Inr st' \<Rightarrow>
                       (case deref st' handle of
                          Inl e \<Rightarrow> Inl e
                        | Inr h' \<Rightarrow> Inr (uh h', st'))))))"

subsection \<open>Queue operations\<close>

text \<open>Modelled from the spec: the queue functions are declared in the header
  and defined elsewhere.  A queue is an ordered collection with a size
  counter; \<^verbatim>\<open>DHQueue_init\<close> makes it empty.\<close>

definition DHQueue_init :: DHQueue where
  "DHQueue_init = \<lparr>elems = [], size_q = 0\<rparr>"

text \<open>Modelled from the spec: \<^verbatim>\<open>DHQueue_append\<close>, declared in the header,
  inserts a wrapper at the tail.\<close>

definition DHQueue_append :: "DHQueue \<Rightarrow> addr \<Rightarrow> DHQueue" where
  "DHQueue_append q h = \<lparr>elems = elems q @ [h], size_q = size_q q + 1\<rparr>"

text \<open>Modelled from the spec: \<^verbatim>\<open>DHQueue_popfront\<close>, declared in the header,
  takes the oldest member from the head; an empty queue has none.\<close>

definition DHQueue_popfront :: "DHQueue \<Rightarrow> (addr \<times> DHQueue) option" where
  "DHQueue_popfront q =
     (case elems q of
        [] \<Rightarrow> None
      | h # rest \<Rightarrow> Some (h, \<lparr>elems = rest, size_q = size_q q - 1\<rparr>))"

text \<open>Modelled from the spec: \<^verbatim>\<open>DHQueue_remove\<close>, declared in the header,
  takes a member out of the queue wherever it stands.\<close>

definition DHQueue_remove :: "DHQueue \<Rightarrow> addr \<Rightarrow> DHQueue" where
  "DHQueue_remove q h =
     (if h \<in> set (elems q)
      then \<lparr>elems = remove1 h (elems q), size_q = size_q q - 1\<rparr>
      else q)"

text \<open>Modelled from the spec: \<^verbatim>\<open>DHQueue_sanity_check\<close>, declared in the
  header, validates the size counter kept beside the members.\<close>

definition DHQueue_sanity_check :: "DHQueue \<Rightarrow> bool" where
  "DHQueue_sanity_check q = (size_q q = int (length (elems q)))"

subsection \<open>The raw-data guard\<close>

text \<open>Modelled from the spec: the code that hands the raw data of a wrapper to
  \<^verbatim>\<open>raw_data_protect\<close> and \<^verbatim>\<open>raw_data_free\<close> is defined elsewhere; the header
  describes it.  When a wrapper is closed, its raw data is protected and its
  size is added to the session's running total; if that would push the total
  over the configured budget, the data is released at once instead and no
  longer belongs to the wrapper.\<close>

definition DHPy_protect_raw_data :: "state \<Rightarrow> addr \<Rightarrow> error + state" where
  "DHPy_protect_raw_data st handle =
     (case deref st handle of
        Inl e \<Rightarrow> Inl e
      | Inr h \<Rightarrow>
          (if associated_data h = NULL then Inr st
           else
             (let info = info_of st in
              if protected_raw_data_size info + associated_data_size h
                   > protected_raw_data_max_size info
              then Inr (st\<lparr>heap := (heap st)(handle \<mapsto> h\<lparr>associated_data := NULL\<rparr>),
                           trace := trace st @
                             [Ev_raw_data_free (associated_data h) (associated_data_size h)]\<rparr>)
              else Inr ((set_info st
                           (info\<lparr>protected_raw_data_size :=
                                    protected_raw_data_size info + associated_data_size h\<rparr>))
                        \<lparr>trace := trace st @
                           [Ev_raw_data_protect (associated_data h) (associated_data_size h)]\<rparr>))))"

text \<open>Modelled from the spec: when a wrapper is reused or freed, the raw data
  it still holds is released and its size leaves the running total.\<close>

definition DHPy_free_raw_data :: "state \<Rightarrow> addr \<Rightarrow> error + state" where
  "DHPy_free_raw_data st handle =
     (case deref st handle of
        Inl e \<Rightarrow> Inl e
      | Inr h \<Rightarrow>
          (if associated_data h = NULL then Inr st
           else
             (let info = info_of st in
              Inr ((set_info st
                      (info\<lparr>protected_raw_data_size :=
                               protected_raw_data_size info - associated_data_size h\<rparr>))
                   \<lparr>heap := (heap st)(handle \<mapsto> h\<lparr>associated_data := NULL\<rparr>),
                    trace := trace st @
                      [Ev_raw_data_free (associated_data h) (associated_data_size h)]\<rparr>))))"

subsection \<open>Opening, closing and freeing wrappers\<close>

text \<open>Modelled from the spec: \<^verbatim>\<open>DHPy_free\<close> is declared in the header and
  defined elsewhere.  It releases the raw data attached to the wrapper and
  the storage of the wrapper.\<close>

definition DHPy_free :: "state \<Rightarrow> DHPy \<Rightarrow> error + state" where
  "DHPy_free st dh =
     (case as_DebugHandle dh of
        Inl e \<Rightarrow> Inl e
      | Inr handle \<Rightarrow>
          (case get_info (dctx st) of
             Inl e \<Rightarrow> Inl e
           | Inr info \<Rightarrow>
               (case DHPy_free_raw_data st handle of
                  Inl e \<Rightarrow> Inl e
                | Inr st1 \<Rightarrow>
                    Inr (st1\<lparr>heap := (heap st1)(handle := None),
                             trace := trace st1 @ [Ev_free handle]\<rparr>))))"

text \<open>Modelled from the spec: the part of \<^verbatim>\<open>DHPy_open\<close> that fills the fields
  of the wrapper (the underlying handle, the current generation, open, no raw
  data) and inserts it into the queue of open wrappers.\<close>

definition install_handle :: "state \<Rightarrow> UHPy \<Rightarrow> addr \<Rightarrow> DHPy \<times> state" where
  "install_handle st u handle =
     (let info = info_of st in
      (as_DHPy handle,
       (set_info st (info\<lparr>open_handles := DHQueue_append (open_handles info) handle\<rparr>))
       \<lparr>heap := (heap st)(handle \<mapsto>
            \<lparr>uh = u, generation = current_generation info, is_closed = False,
             associated_data = NULL, associated_data_size = 0\<rparr>)\<rparr>))"

text \<open>Modelled from the spec: \<^verbatim>\<open>DHPy_open\<close> is declared in the header and
  defined elsewhere.  It allocates or reuses a wrapper, assigns the current
  generation and inserts the wrapper into the open queue.  As the header
  describes it: if the queue of closed wrappers is full, the memory of the
  oldest one is reused (its raw data goes to \<^verbatim>\<open>raw_data_free\<close>), else memory
  is allocated.  The argument \<open>m\<close> is what \<^verbatim>\<open>malloc\<close> returns if it is
  called; \<open>NULL\<close> is resource exhaustion, reported to the caller by the null
  handle.\<close>

definition DHPy_open :: "state \<Rightarrow> UHPy \<Rightarrow> addr \<Rightarrow> error + (DHPy \<times> state)" where
  "DHPy_open st u m =
     (case get_info (dctx st) of
        Inl e \<Rightarrow> Inl e
      | Inr info \<Rightarrow>
          (if size_q (closed_handles info) \<ge> closed_handles_queue_max_size info then
             (case DHQueue_popfront (closed_handles info) of
                None \<Rightarrow> Inl Invalid_pointer
              | Some (handle, q') \<Rightarrow>
                  (case DHPy_free_raw_data (set_info st (info\<lparr>closed_handles := q'\<rparr>)) handle of
                     Inl e \<Rightarrow> Inl e
                   | Inr st1 \<Rightarrow> Inr (install_handle st1 u handle)))
           else if m = NULL then Inr (HPy_NULL, st)
           else Inr (install_handle st u m)))"

text \<open>Modelled from the spec: when appending to the queue of closed wrappers
  would push it past its configured maximum, \<^verbatim>\<open>popfront\<close> is invoked first and
  the evicted wrapper is freed.\<close>

definition evict_oldest :: "state \<Rightarrow> error + state" where
  "evict_oldest st =
     (let info = info_of st in
      if size_q (closed_handles info) + 1 > closed_handles_queue_max_size info then
        (case DHQueue_popfront (closed_handles info) of
           None \<Rightarrow> Inr st
         | Some (oldest, q') \<Rightarrow>
             DHPy_free (set_info st (info\<lparr>closed_handles := q'\<rparr>)) (as_DHPy oldest))
      else Inr st)"

text \<open>Modelled from the spec: the part of \<^verbatim>\<open>DHPy_close\<close> that removes the
  wrapper from the open queue and marks it closed.\<close>

definition mark_closed :: "state \<Rightarrow> addr \<Rightarrow> DebugHandle \<Rightarrow> state" where
  "mark_closed st handle h =
     (set_info st
        ((info_of st)\<lparr>open_handles := DHQueue_remove (open_handles (info_of st)) handle\<rparr>))
     \<lparr>heap := (heap st)(handle \<mapsto> h\<lparr>is_closed := True\<rparr>)\<rparr>"

text \<open>Modelled from the spec: the part of \<^verbatim>\<open>DHPy_close\<close> that appends the
  wrapper to the queue of closed wrappers.\<close>

definition append_closed :: "state \<Rightarrow> addr \<Rightarrow> state" where
  "append_closed st handle =
     set_info st
       ((info_of st)\<lparr>closed_handles := DHQueue_append (closed_handles (info_of st)) handle\<rparr>)"

text \<open>Modelled from the spec: \<^verbatim>\<open>DHPy_close\<close> is declared in the header and
  defined elsewhere.  It removes the wrapper from the open queue, marks it
  closed and appends it to the queue of closed wrappers; the raw data of the
  wrapper goes to the raw-data guard.  Closing a wrapper that is already
  closed is a violation with the same fatal path as a stale unwrap.\<close>

definition DHPy_close :: "state \<Rightarrow> DHPy \<Rightarrow> error + state" where
  "DHPy_close st dh =
     (case get_info (dctx st) of
        Inl e \<Rightarrow> Inl e
      | Inr info \<Rightarrow>
          (case as_DebugHandle dh of
             Inl e \<Rightarrow> Inl e
           | Inr handle \<Rightarrow>
               (case deref st handle of
                  Inl e \<Rightarrow> Inl e
                | Inr h \<Rightarrow>
                    (if is_closed h then DHPy_invalid_handle st dh
                     else
                       (case DHPy_protect_raw_data (mark_closed st handle h) handle of
                          Inl e \<Rightarrow> Inl e
                        | Inr st2 \<Rightarrow>
                            (case evict_oldest st2 of
                               Inl e \<Rightarrow> Inl e
                             | Inr st3 \<Rightarrow> Inr (append_closed st3 handle)))))))"

subsection \<open>Raw data, generations and runs\<close>

text \<open>Modelled from the spec: a context function that attaches raw data to a
  wrapper is defined elsewhere; the header describes it.  The function
  unwraps its handle argument and stores the copy of the data, made by
  \<^verbatim>\<open>raw_data_copy\<close>, and its byte length in the wrapper.\<close>

definition attach_raw_data :: "state \<Rightarrow> DHPy \<Rightarrow> addr \<Rightarrow> nat \<Rightarrow> error + state" where
  "attach_raw_data st dh data n =
     (case DHPy_unwrap st dh of
        Inl e \<Rightarrow> Inl e
      | Inr (u, st1) \<Rightarrow>
          (case as_DebugHandle dh of
             Inl e \<Rightarrow> Inl e
           | Inr handle \<Rightarrow>
               (case deref st1 handle of
                  Inl e \<Rightarrow> Inl e
                | Inr h \<Rightarrow>
                    Inr (st1\<lparr>heap := (heap st1)(handle \<mapsto>
                           h\<lparr>associated_data := data,
                             associated_data_size := int n\<rparr>)\<rparr>))))"

text \<open>The largest \<^verbatim>\<open>long\<close> of the platform.\<close>

definition LONG_MAX :: int where
  "LONG_MAX = 2 ^ 63 - 1"

text \<open>Modelled from the spec: the checkpoint operation is defined elsewhere.
  The generation counter is incremented at checkpoints chosen by the
  caller.\<close>

definition new_generation :: "state \<Rightarrow> error + state" where
  "new_generation st =
     (case get_info (dctx st) of
        Inl e \<Rightarrow> Inl e
      | Inr info \<Rightarrow>
          (if current_generation info \<ge> LONG_MAX then Inl Signed_overflow
           else Inr (set_info st
                       (info\<lparr>current_generation := current_generation info + 1\<rparr>))))"

text \<open>The calls a client can make on a session, and a sequence of them.  A
  sequence stops at the first call that does not return.\<close>

datatype op =
    Op_open UHPy addr
  | Op_close DHPy
  | Op_unwrap DHPy
  | Op_attach DHPy addr nat
  | Op_new_generation

fun step :: "state \<Rightarrow> op \<Rightarrow> error + state" where
  "step st (Op_open u m) =
     (case DHPy_open st u m of Inl e \<Rightarrow> Inl e | Inr (dh, st') \<Rightarrow> Inr st')"
| "step st (Op_close dh) = DHPy_close st dh"
| "step st (Op_unwrap dh) =
     (case DHPy_unwrap st dh of Inl e \<Rightarrow> Inl e | Inr (u, st') \<Rightarrow> Inr st')"
| "step st (Op_attach dh data n) = attach_raw_data st dh data n"
| "step st Op_new_generation = new_generation st"

fun run :: "state \<Rightarrow> op list \<Rightarrow> error + state" where
  "run st [] = Inr st"
| "run st (x # xs) = (case step st x of Inl e \<Rightarrow> Inl e | Inr st' \<Rightarrow> run st' xs)"

text \<open>Modelled from the spec: the construction of a session is defined
  elsewhere.  A session is constructed with its configuration (the maximum
  size of the queue of closed wrappers, the budget of protected bytes, the
  optional invalid-handle callback), with empty queues and nothing
  protected.\<close>

definition new_session :: "int \<Rightarrow> int \<Rightarrow> UHPy \<Rightarrow> state" where
  "new_session qmax budget callback =
     \<lparr>dctx = \<lparr>ctx_private =
         \<lparr>magic_number = HPY_DEBUG_MAGIC,
          current_generation = 0,
          uh_on_invalid_handle = callback,
          closed_handles_queue_max_size = qmax,
          protected_raw_data_max_size = budget,
          protected_raw_data_size = 0,
          open_handles = DHQueue_init,
          closed_handles = DHQueue_init\<rparr>\<rparr>,
      heap = Map.empty,
      trace = []\<rparr>"

text \<open>Modelled from the spec: the session constructed without explicit
  configuration has the two default limits of the header and no callback.\<close>

definition default_session :: state where
  "default_session =
     new_session DEFAULT_CLOSED_HANDLES_QUEUE_MAX_SIZE
       DEFAULT_PROTECTED_RAW_DATA_MAX_SIZE HPy_NULL"

subsection \<open>What the properties speak about\<close>

text \<open>The configuration of a session: the marker, the callback and the two
  limits.\<close>

definition config_of :: "state \<Rightarrow> int \<times> UHPy \<times> int \<times> int" where
  "config_of st =
     (magic_number (info_of st), uh_on_invalid_handle (info_of st),
      closed_handles_queue_max_size (info_of st), protected_raw_data_max_size (info_of st))"

definition gen_of :: "state \<Rightarrow> int" where
  "gen_of st = current_generation (info_of st)"

definition closed_of :: "state \<Rightarrow> DHQueue" where
  "closed_of st = closed_handles (info_of st)"

definition qmax_of :: "state \<Rightarrow> int" where
  "qmax_of st = closed_handles_queue_max_size (info_of st)"

definition budget_of :: "state \<Rightarrow> int" where
  "budget_of st = protected_raw_data_max_size (info_of st)"

definition protected_of :: "state \<Rightarrow> int" where
  "protected_of st = protected_raw_data_size (info_of st)"

text \<open>The queue of closed wrappers is within its bound and its counter is
  the number of its members.\<close>

definition closed_queue_ok :: "state \<Rightarrow> bool" where
  "closed_queue_ok st =
     (DHQueue_sanity_check (closed_of st) \<and> size_q (closed_of st) \<le> qmax_of st)"

text \<open>The running total is within the budget, and no wrapper carries a
  negative byte length.\<close>

definition budget_ok :: "state \<Rightarrow> bool" where
  "budget_ok st =
     (protected_of st \<le> budget_of st \<and>
      (\<forall>a h. heap st a = Some h \<longrightarrow> 0 \<le> associated_data_size h))"

text \<open>What \<^verbatim>\<open>malloc\<close> can return: \<open>NULL\<close>, or the address of storage that is
  not in use, aligned for a wrapper.  A sequence of calls is well allocated
  when every open in it is given such an address.\<close>

definition fresh_storage :: "state \<Rightarrow> addr \<Rightarrow> bool" where
  "fresh_storage st m = (m = NULL \<or> (heap st m = None \<and> m AND 1 = 0))"

fun well_allocated :: "state \<Rightarrow> op list \<Rightarrow> bool" where
  "well_allocated st [] = True"
| "well_allocated st (x # xs) =
     ((case x of Op_open u m \<Rightarrow> fresh_storage st m | _ \<Rightarrow> True) \<and>
      (case step st x of Inl e \<Rightarrow> True | Inr st' \<Rightarrow> well_allocated st' xs))"

text \<open>The members of the queue of closed wrappers are distinct, each of them
  is allocated and marked closed, and every allocated wrapper lies at an
  address that is not null and is aligned.\<close>

definition quarantine_ok :: "state \<Rightarrow> bool" where
  "quarantine_ok st =
     (distinct (elems (closed_of st)) \<and>
      (\<forall>a \<in> set (elems (closed_of st)). \<exists>h. heap st a = Some h \<and> is_closed h) \<and>
      (\<forall>a h. heap st a = Some h \<longrightarrow> a \<noteq> NULL \<and> a AND 1 = 0))"

text \<open>The wrappers whose storage a list of recorded calls gives back, in
  order.\<close>

fun freed :: "event list \<Rightarrow> addr list" where
  "freed [] = []"
| "freed (Ev_free a # evs) = a # freed evs"
| "freed (_ # evs) = freed evs"

subsection \<open>Example sessions\<close>

text \<open>Sessions that the properties below are tried on.  The wrappers live
  at the addresses 8 and 16 and wrap the underlying handles 1 and 3.\<close>

text \<open>A session with room for one closed wrapper, after two wrappers have been opened.\<close>

definition ex_two_open :: state where
  "ex_two_open =
     \<lparr>dctx = \<lparr>ctx_private =
         \<lparr>magic_number = HPY_DEBUG_MAGIC,
          current_generation = 0,
          uh_on_invalid_handle = HPy_NULL,
          closed_handles_queue_max_size = 1,
          protected_raw_data_max_size = 100,
          protected_raw_data_size = 0,
          open_handles = \<lparr>elems = [8, 16], size_q = 2\<rparr>,
          closed_handles = \<lparr>elems = [], size_q = 0\<rparr>\<rparr>\<rparr>,
      heap =
        [8 \<mapsto> \<lparr>uh = \<lparr>HPy_i = 1\<rparr>, generation = 0, is_closed = False,
            associated_data = 0, associated_data_size = 0\<rparr>,
         16 \<mapsto> \<lparr>uh = \<lparr>HPy_i = 3\<rparr>, generation = 0, is_closed = False,
            associated_data = 0, associated_data_size = 0\<rparr>],
      trace = []\<rparr>"

text \<open>The same session after the first wrapper has been closed.\<close>

definition ex_one_closed :: state where
  "ex_one_closed =
     \<lparr>dctx = \<lparr>ctx_private =
         \<lparr>magic_number = HPY_DEBUG_MAGIC,
          current_generation = 0,
          uh_on_invalid_handle = HPy_NULL,
          closed_handles_queue_max_size = 1,
          protected_raw_data_max_size = 100,
          protected_raw_data_size = 0,
          open_handles = \<lparr>elems = [16], size_q = 1\<rparr>,
          closed_handles = \<lparr>elems = [8], size_q = 1\<rparr>\<rparr>\<rparr>,
      heap =
        [16 \<mapsto> \<lparr>uh = \<lparr>HPy_i = 3\<rparr>, generation = 0, is_closed = False,
            associated_data = 0, associated_data_size = 0\<rparr>,
         8 \<mapsto> \<lparr>uh = \<lparr>HPy_i = 1\<rparr>, generation = 0, is_closed = True,
            associated_data = 0, associated_data_size = 0\<rparr>],
      trace = []\<rparr>"

text \<open>The same session after the second wrapper has been closed too: the first one has been
  evicted and freed.\<close>

definition ex_evicted :: state where
  "ex_evicted =
     \<lparr>dctx = \<lparr>ctx_private =
         \<lparr>magic_number = HPY_DEBUG_MAGIC,
          current_generation = 0,
          uh_on_invalid_handle = HPy_NULL,
          closed_handles_queue_max_size = 1,
          protected_raw_data_max_size = 100,
          protected_raw_data_size = 0,
          open_handles = \<lparr>elems = [], size_q = 0\<rparr>,
          closed_handles = \<lparr>elems = [16], size_q = 1\<rparr>\<rparr>\<rparr>,
      heap =
        [16 \<mapsto> \<lparr>uh = \<lparr>HPy_i = 3\<rparr>, generation = 0, is_closed = True,
            associated_data = 0, associated_data_size = 0\<rparr>],
      trace = [Ev_free 8]\<rparr>"

text \<open>A session with a budget of 100 bytes: a closed wrapper with 60 protected bytes and an
  open wrapper with 50 bytes of raw data.\<close>

definition ex_guarded :: state where
  "ex_guarded =
     \<lparr>dctx = \<lparr>ctx_private =
         \<lparr>magic_number = HPY_DEBUG_MAGIC,
          current_generation = 0,
          uh_on_invalid_handle = HPy_NULL,
          closed_handles_queue_max_size = 2,
          protected_raw_data_max_size = 100,
          protected_raw_data_size = 60,
          open_handles = \<lparr>elems = [16], size_q = 1\<rparr>,
          closed_handles = \<lparr>elems = [8], size_q = 1\<rparr>\<rparr>\<rparr>,
      heap =
        [8 \<mapsto> \<lparr>uh = \<lparr>HPy_i = 1\<rparr>, generation = 0, is_closed = True,
            associated_data = 4096, associated_data_size = 60\<rparr>,
         16 \<mapsto> \<lparr>uh = \<lparr>HPy_i = 3\<rparr>, generation = 0, is_closed = False,
            associated_data = 8192, associated_data_size = 50\<rparr>],
      trace = [Ev_raw_data_protect 4096 60]\<rparr>"

text \<open>The same session after the open wrapper has been closed: its raw data has been
  released at once.\<close>

definition ex_released :: state where
  "ex_released =
     \<lparr>dctx = \<lparr>ctx_private =
         \<lparr>magic_number = HPY_DEBUG_MAGIC,
          current_generation = 0,
          uh_on_invalid_handle = HPy_NULL,
          closed_handles_queue_max_size = 2,
          protected_raw_data_max_size = 100,
          protected_raw_data_size = 60,
          open_handles = \<lparr>elems = [], size_q = 0\<rparr>,
          closed_handles = \<lparr>elems = [8, 16], size_q = 2\<rparr>\<rparr>\<rparr>,
      heap =
        [8 \<mapsto> \<lparr>uh = \<lparr>HPy_i = 1\<rparr>, generation = 0, is_closed = True,
            associated_data = 4096, associated_data_size = 60\<rparr>,
         16 \<mapsto> \<lparr>uh = \<lparr>HPy_i = 3\<rparr>, generation = 0, is_closed = True,
            associated_data = 0, associated_data_size = 50\<rparr>],
      trace = [Ev_raw_data_protect 4096 60, Ev_raw_data_free 8192 50]\<rparr>"

text \<open>A session after one wrapper has been opened,\<close>

definition ex_gen_first :: state where
  "ex_gen_first =
     \<lparr>dctx = \<lparr>ctx_private =
         \<lparr>magic_number = HPY_DEBUG_MAGIC,
          current_generation = 0,
          uh_on_invalid_handle = HPy_NULL,
          closed_handles_queue_max_size = 2,
          protected_raw_data_max_size = 100,
          protected_raw_data_size = 0,
          open_handles = \<lparr>elems = [8], size_q = 1\<rparr>,
          closed_handles = \<lparr>elems = [], size_q = 0\<rparr>\<rparr>\<rparr>,
      heap =
        [8 \<mapsto> \<lparr>uh = \<lparr>HPy_i = 1\<rparr>, generation = 0, is_closed = False,
            associated_data = 0, associated_data_size = 0\<rparr>],
      trace = []\<rparr>"

text \<open>after a checkpoint,\<close>

definition ex_gen_checkpoint :: state where
  "ex_gen_checkpoint =
     \<lparr>dctx = \<lparr>ctx_private =
         \<lparr>magic_number = HPY_DEBUG_MAGIC,
          current_generation = 1,
          uh_on_invalid_handle = HPy_NULL,
          closed_handles_queue_max_size = 2,
          protected_raw_data_max_size = 100,
          protected_raw_data_size = 0,
          open_handles = \<lparr>elems = [8], size_q = 1\<rparr>,
          closed_handles = \<lparr>elems = [], size_q = 0\<rparr>\<rparr>\<rparr>,
      heap =
        [8 \<mapsto> \<lparr>uh = \<lparr>HPy_i = 1\<rparr>, generation = 0, is_closed = False,
            associated_data = 0, associated_data_size = 0\<rparr>],
      trace = []\<rparr>"

text \<open>and after a second wrapper has been opened.\<close>

definition ex_gen_second :: state where
  "ex_gen_second =
     \<lparr>dctx = \<lparr>ctx_private =
         \<lparr>magic_number = HPY_DEBUG_MAGIC,
          current_generation = 1,
          uh_on_invalid_handle = HPy_NULL,
          closed_handles_queue_max_size = 2,
          protected_raw_data_max_size = 100,
          protected_raw_data_size = 0,
          open_handles = \<lparr>elems = [8, 16], size_q = 2\<rparr>,
          closed_handles = \<lparr>elems = [], size_q = 0\<rparr>\<rparr>\<rparr>,
      heap =
        [8 \<mapsto> \<lparr>uh = \<lparr>HPy_i = 1\<rparr>, generation = 0, is_closed = False,
            associated_data = 0, associated_data_size = 0\<rparr>,
         16 \<mapsto> \<lparr>uh = \<lparr>HPy_i = 3\<rparr>, generation = 1, is_closed = False,
            associated_data = 0, associated_data_size = 0\<rparr>],
      trace = []\<rparr>"

text \<open>A session with room for one closed wrapper, after one wrapper has been opened
  and closed,\<close>

definition ex_alone_closed :: state where
  "ex_alone_closed =
     \<lparr>dctx = \<lparr>ctx_private =
         \<lparr>magic_number = HPY_DEBUG_MAGIC,
          current_generation = 0,
          uh_on_invalid_handle = HPy_NULL,
          closed_handles_queue_max_size = 1,
          protected_raw_data_max_size = 100,
          protected_raw_data_size = 0,
          open_handles = \<lparr>elems = [], size_q = 0\<rparr>,
          closed_handles = \<lparr>elems = [8], size_q = 1\<rparr>\<rparr>\<rparr>,
      heap =
        [8 \<mapsto> \<lparr>uh = \<lparr>HPy_i = 1\<rparr>, generation = 0, is_closed = True,
            associated_data = 0, associated_data_size = 0\<rparr>],
      trace = []\<rparr>"

text \<open>and after the next open, which has reused the storage of the closed wrapper for
  the underlying handle 3.\<close>

definition ex_reused :: state where
  "ex_reused =
     \<lparr>dctx = \<lparr>ctx_private =
         \<lparr>magic_number = HPY_DEBUG_MAGIC,
          current_generation = 0,
          uh_on_invalid_handle = HPy_NULL,
          closed_handles_queue_max_size = 1,
          protected_raw_data_max_size = 100,
          protected_raw_data_size = 0,
          open_handles = \<lparr>elems = [8], size_q = 1\<rparr>,
          closed_handles = \<lparr>elems = [], size_q = 0\<rparr>\<rparr>\<rparr>,
      heap =
        [8 \<mapsto> \<lparr>uh = \<lparr>HPy_i = 3\<rparr>, generation = 0, is_closed = False,
            associated_data = 0, associated_data_size = 0\<rparr>],
      trace = []\<rparr>"

section \<open>Properties of the operations\<close>

subsection \<open>Basic facts\<close>

lemma info_of_simps [simp]:
  "info_of (set_info st i) = i"
  "info_of (st\<lparr>heap := hp\<rparr>) = info_of st"
  "info_of (st\<lparr>trace := tr\<rparr>) = info_of st"
  "heap (set_info st i) = heap st"
  "trace (set_info st i) = trace st"
  by (simp_all add: info_of_def set_info_def)

lemma get_info_Inr:
  "get_info (dctx st) = Inr info \<longleftrightarrow>
     info = info_of st \<and> magic_number (info_of st) = HPY_DEBUG_MAGIC"
  by (auto simp: get_info_def info_of_def Let_def)

lemma get_info_Inl:
  "get_info (dctx st) = Inl e \<longleftrightarrow>
     e = Assertion_failed \<and> magic_number (info_of st) \<noteq> HPY_DEBUG_MAGIC"
  by (auto simp: get_info_def info_of_def Let_def)

lemmas proj_defs = config_of_def gen_of_def closed_of_def qmax_of_def budget_of_def
  protected_of_def

lemma proj_update_simps [simp]:
  "config_of (st\<lparr>heap := hp\<rparr>) = config_of st"
  "config_of (st\<lparr>trace := tr\<rparr>) = config_of st"
  "gen_of (st\<lparr>heap := hp\<rparr>) = gen_of st"
  "gen_of (st\<lparr>trace := tr\<rparr>) = gen_of st"
  "closed_of (st\<lparr>heap := hp\<rparr>) = closed_of st"
  "closed_of (st\<lparr>trace := tr\<rparr>) = closed_of st"
  "qmax_of (st\<lparr>heap := hp\<rparr>) = qmax_of st"
  "qmax_of (st\<lparr>trace := tr\<rparr>) = qmax_of st"
  "budget_of (st\<lparr>heap := hp\<rparr>) = budget_of st"
  "budget_of (st\<lparr>trace := tr\<rparr>) = budget_of st"
  "protected_of (st\<lparr>heap := hp\<rparr>) = protected_of st"
  "protected_of (st\<lparr>trace := tr\<rparr>) = protected_of st"
  by (simp_all add: proj_defs)

lemma freed_append [simp]: "freed (xs @ ys) = freed xs @ freed ys"
  by (induction xs rule: freed.induct) simp_all

subsection \<open>Decomposition of the operations\<close>

lemma free_raw_data_cases:
  assumes "DHPy_free_raw_data st a = Inr st'"
  obtains h where "heap st a = Some h" "associated_data h = NULL" "st' = st"
  | h where "heap st a = Some h" "associated_data h \<noteq> NULL"
      "st' = (set_info st ((info_of st)\<lparr>protected_raw_data_size :=
                 protected_raw_data_size (info_of st) - associated_data_size h\<rparr>))
              \<lparr>heap := (heap st)(a \<mapsto> h\<lparr>associated_data := NULL\<rparr>),
               trace := trace st @
                 [Ev_raw_data_free (associated_data h) (associated_data_size h)]\<rparr>"
  using assms
  by (auto simp: DHPy_free_raw_data_def Let_def deref_def split: option.splits if_splits)

lemma protect_raw_data_cases:
  assumes "DHPy_protect_raw_data st a = Inr st'"
  obtains h where "heap st a = Some h" "associated_data h = NULL" "st' = st"
  | h where "heap st a = Some h" "associated_data h \<noteq> NULL"
      "protected_of st + associated_data_size h > budget_of st"
      "st' = st\<lparr>heap := (heap st)(a \<mapsto> h\<lparr>associated_data := NULL\<rparr>),
                trace := trace st @
                  [Ev_raw_data_free (associated_data h) (associated_data_size h)]\<rparr>"
  | h where "heap st a = Some h" "associated_data h \<noteq> NULL"
      "protected_of st + associated_data_size h \<le> budget_of st"
      "st' = (set_info st ((info_of st)\<lparr>protected_raw_data_size :=
                 protected_raw_data_size (info_of st) + associated_data_size h\<rparr>))
              \<lparr>trace := trace st @
                 [Ev_raw_data_protect (associated_data h) (associated_data_size h)]\<rparr>"
  using assms
  by (auto simp: DHPy_protect_raw_data_def Let_def deref_def proj_defs
        split: option.splits if_splits)

lemma free_cases:
  assumes "DHPy_free st dh = Inr st'"
  obtains st1 where "HPy_i dh AND 1 = 0" "DHPy_free_raw_data st (HPy_i dh) = Inr st1"
    "st' = st1\<lparr>heap := (heap st1)(HPy_i dh := None), trace := trace st1 @ [Ev_free (HPy_i dh)]\<rparr>"
  using assms
  by (auto simp: DHPy_free_def as_DebugHandle_def DHPy_sanity_check_def
        split: sum.splits if_splits)

lemma evict_cases:
  assumes "evict_oldest st = Inr st'"
  obtains "size_q (closed_of st) + 1 \<le> qmax_of st" "st' = st"
  | "size_q (closed_of st) + 1 > qmax_of st" "elems (closed_of st) = []" "st' = st"
  | oldest rest where "size_q (closed_of st) + 1 > qmax_of st"
      "elems (closed_of st) = oldest # rest"
      "DHPy_free (set_info st ((info_of st)\<lparr>closed_handles :=
          \<lparr>elems = rest, size_q = size_q (closed_of st) - 1\<rparr>\<rparr>)) (as_DHPy oldest) = Inr st'"
  using assms
  by (auto simp: evict_oldest_def Let_def DHQueue_popfront_def proj_defs
        split: list.splits if_splits)

lemma close_cases:
  assumes "DHPy_close st dh = Inr st'"
  obtains h st2 st3 where
    "magic_number (info_of st) = HPY_DEBUG_MAGIC" "HPy_i dh AND 1 = 0"
    "heap st (HPy_i dh) = Some h" "\<not> is_closed h"
    "DHPy_protect_raw_data (mark_closed st (HPy_i dh) h) (HPy_i dh) = Inr st2"
    "evict_oldest st2 = Inr st3"
    "st' = append_closed st3 (HPy_i dh)"
  using assms
  by (auto simp: DHPy_close_def DHPy_invalid_handle_def get_info_Inr as_DebugHandle_def
        DHPy_sanity_check_def deref_def split: sum.splits if_splits option.splits)

lemma open_cases:
  assumes "DHPy_open st u m = Inr (dh, st')"
  obtains handle rest st1 where "magic_number (info_of st) = HPY_DEBUG_MAGIC"
      "size_q (closed_of st) \<ge> qmax_of st" "elems (closed_of st) = handle # rest"
      "DHPy_free_raw_data (set_info st ((info_of st)\<lparr>closed_handles :=
          \<lparr>elems = rest, size_q = size_q (closed_of st) - 1\<rparr>\<rparr>)) handle = Inr st1"
      "(dh, st') = install_handle st1 u handle"
  | "magic_number (info_of st) = HPY_DEBUG_MAGIC"
      "size_q (closed_of st) < qmax_of st" "m = NULL" "dh = HPy_NULL" "st' = st"
  | "magic_number (info_of st) = HPY_DEBUG_MAGIC"
      "size_q (closed_of st) < qmax_of st" "m \<noteq> NULL" "(dh, st') = install_handle st u m"
  using assms
  by (auto simp: DHPy_open_def get_info_Inr DHQueue_popfront_def proj_defs
        split: sum.splits if_splits option.splits list.splits)

subsection \<open>Configuration and generation\<close>

lemma free_raw_data_frame:
  assumes "DHPy_free_raw_data st a = Inr st'"
  shows "config_of st' = config_of st \<and> gen_of st' = gen_of st \<and> closed_of st' = closed_of st"
  using assms by (rule free_raw_data_cases) (simp_all add: proj_defs)

lemma protect_raw_data_frame:
  assumes "DHPy_protect_raw_data st a = Inr st'"
  shows "config_of st' = config_of st \<and> gen_of st' = gen_of st \<and> closed_of st' = closed_of st"
  using assms by (rule protect_raw_data_cases) (simp_all add: proj_defs)

lemma free_frame:
  assumes "DHPy_free st dh = Inr st'"
  shows "config_of st' = config_of st \<and> gen_of st' = gen_of st \<and> closed_of st' = closed_of st"
  using assms
proof (rule free_cases)
  fix st1
  assume "DHPy_free_raw_data st (HPy_i dh) = Inr st1"
    and "st' = st1\<lparr>heap := (heap st1)(HPy_i dh := None),
                    trace := trace st1 @ [Ev_free (HPy_i dh)]\<rparr>"
  then show ?thesis
    using free_raw_data_frame [of st "HPy_i dh" st1] by (simp add: proj_defs)
qed

lemma evict_frame:
  assumes "evict_oldest st = Inr st'"
  shows "config_of st' = config_of st \<and> gen_of st' = gen_of st"
  using assms
proof (rule evict_cases)
  fix oldest rest
  assume "DHPy_free (set_info st ((info_of st)\<lparr>closed_handles :=
          \<lparr>elems = rest, size_q = size_q (closed_of st) - 1\<rparr>\<rparr>)) (as_DHPy oldest) = Inr st'"
  from free_frame [OF this] show ?thesis by (simp add: proj_defs)
qed simp_all

lemma mark_closed_frame:
  "config_of (mark_closed st a h) = config_of st"
  "gen_of (mark_closed st a h) = gen_of st"
  "closed_of (mark_closed st a h) = closed_of st"
  "protected_of (mark_closed st a h) = protected_of st"
  "budget_of (mark_closed st a h) = budget_of st"
  "qmax_of (mark_closed st a h) = qmax_of st"
  "trace (mark_closed st a h) = trace st"
  "heap (mark_closed st a h) = (heap st)(a \<mapsto> h\<lparr>is_closed := True\<rparr>)"
  by (simp_all add: mark_closed_def proj_defs)

lemma append_closed_frame:
  "config_of (append_closed st a) = config_of st"
  "gen_of (append_closed st a) = gen_of st"
  "closed_of (append_closed st a) = DHQueue_append (closed_of st) a"
  "protected_of (append_closed st a) = protected_of st"
  "budget_of (append_closed st a) = budget_of st"
  "qmax_of (append_closed st a) = qmax_of st"
  "trace (append_closed st a) = trace st"
  "heap (append_closed st a) = heap st"
  by (simp_all add: append_closed_def proj_defs)

lemma install_handle_frame:
  assumes "(dh, st') = install_handle st u a"
  shows "config_of st' = config_of st" "gen_of st' = gen_of st"
    "closed_of st' = closed_of st" "protected_of st' = protected_of st"
    "budget_of st' = budget_of st" "qmax_of st' = qmax_of st" "trace st' = trace st"
    "heap st' = (heap st)(a \<mapsto> \<lparr>uh = u, generation = gen_of st, is_closed = False,
        associated_data = NULL, associated_data_size = 0\<rparr>)"
    "dh = as_DHPy a"
  using assms by (simp_all add: install_handle_def Let_def proj_defs)

lemma close_frame:
  assumes "DHPy_close st dh = Inr st'"
  shows "config_of st' = config_of st \<and> gen_of st' = gen_of st"
  using assms
proof (rule close_cases)
  fix h st2 st3
  assume p: "DHPy_protect_raw_data (mark_closed st (HPy_i dh) h) (HPy_i dh) = Inr st2"
    and e: "evict_oldest st2 = Inr st3"
    and r: "st' = append_closed st3 (HPy_i dh)"
  from protect_raw_data_frame [OF p] evict_frame [OF e] r show ?thesis
    by (simp add: append_closed_frame mark_closed_frame)
qed

lemma open_frame:
  assumes "DHPy_open st u m = Inr (dh, st')"
  shows "config_of st' = config_of st \<and> gen_of st' = gen_of st"
  using assms
proof (rule open_cases)
  fix handle rest st1
  assume f: "DHPy_free_raw_data (set_info st ((info_of st)\<lparr>closed_handles :=
          \<lparr>elems = rest, size_q = size_q (closed_of st) - 1\<rparr>\<rparr>)) handle = Inr st1"
    and i: "(dh, st') = install_handle st1 u handle"
  from free_raw_data_frame [OF f] install_handle_frame(1,2) [OF i] show ?thesis
    by (simp add: proj_defs)
next
  assume "(dh, st') = install_handle st u m"
  from install_handle_frame(1,2) [OF this] show ?thesis by simp
qed simp

lemma unwrap_frame:
  assumes "DHPy_unwrap st dh = Inr (u, st')"
  shows "st' = st"
  using assms
  by (auto simp: DHPy_unwrap_def DHPy_invalid_handle_def split: if_splits sum.splits)

lemma attach_frame:
  assumes "attach_raw_data st dh d n = Inr st'"
  shows "info_of st' = info_of st"
  using assms
  by (auto simp: attach_raw_data_def dest!: unwrap_frame split: sum.splits)

lemma new_generation_frame:
  assumes "new_generation st = Inr st'"
  shows "config_of st' = config_of st \<and> gen_of st' = gen_of st + 1
    \<and> closed_of st' = closed_of st \<and> protected_of st' = protected_of st \<and> heap st' = heap st"
  using assms
  by (auto simp: new_generation_def get_info_Inr proj_defs split: sum.splits if_splits)

lemma step_frame:
  assumes "step st x = Inr st'"
  shows "config_of st' = config_of st \<and> gen_of st \<le> gen_of st'"
proof (cases x)
  case (Op_open u m)
  with assms obtain dh where "DHPy_open st u m = Inr (dh, st')"
    by (auto split: sum.splits)
  from open_frame [OF this] show ?thesis by simp
next
  case (Op_close dh)
  with assms close_frame [of st dh st'] show ?thesis by simp
next
  case (Op_unwrap dh)
  with assms obtain u where "DHPy_unwrap st dh = Inr (u, st')"
    by (auto split: sum.splits)
  from unwrap_frame [OF this] show ?thesis by simp
next
  case (Op_attach dh d n)
  with assms attach_frame [of st dh d n st'] show ?thesis by (simp add: proj_defs)
next
  case Op_new_generation
  with assms new_generation_frame [of st st'] show ?thesis by simp
qed

lemma run_frame:
  "run st xs = Inr st' \<Longrightarrow> config_of st' = config_of st \<and> gen_of st \<le> gen_of st'"
proof (induction xs arbitrary: st)
  case Nil
  then show ?case by simp
next
  case (Cons x xs)
  then obtain st1 where s: "step st x = Inr st1" and r: "run st1 xs = Inr st'"
    by (auto split: sum.splits)
  from step_frame [OF s] Cons.IH [OF r] show ?case by simp
qed

subsection \<open>The bound of the closed queue\<close>

lemma config_limits:
  "config_of st' = config_of st \<Longrightarrow> qmax_of st' = qmax_of st \<and> budget_of st' = budget_of st"
  by (simp add: proj_defs)

lemma evict_room:
  assumes e: "evict_oldest st = Inr st'" and ok: "closed_queue_ok st" and m: "1 \<le> qmax_of st"
  shows "DHQueue_sanity_check (closed_of st') \<and> size_q (closed_of st') + 1 \<le> qmax_of st
    \<and> qmax_of st' = qmax_of st"
  using e
proof (rule evict_cases)
  assume "size_q (closed_of st) + 1 \<le> qmax_of st" "st' = st"
  with ok show ?thesis by (simp add: closed_queue_ok_def)
next
  assume "qmax_of st < size_q (closed_of st) + 1" "elems (closed_of st) = []"
  with ok m show ?thesis by (simp add: closed_queue_ok_def DHQueue_sanity_check_def)
next
  fix oldest rest
  assume el: "elems (closed_of st) = oldest # rest"
    and f: "DHPy_free (set_info st ((info_of st)\<lparr>closed_handles :=
          \<lparr>elems = rest, size_q = size_q (closed_of st) - 1\<rparr>\<rparr>)) (as_DHPy oldest) = Inr st'"
  from free_frame [OF f] el ok show ?thesis
    by (simp add: closed_queue_ok_def DHQueue_sanity_check_def proj_defs)
qed

lemma close_closed_queue_ok:
  assumes c: "DHPy_close st dh = Inr st'" and ok: "closed_queue_ok st" and m: "1 \<le> qmax_of st"
  shows "closed_queue_ok st'"
  using c
proof (rule close_cases)
  fix h st2 st3
  assume p: "DHPy_protect_raw_data (mark_closed st (HPy_i dh) h) (HPy_i dh) = Inr st2"
    and e: "evict_oldest st2 = Inr st3"
    and r: "st' = append_closed st3 (HPy_i dh)"
  from protect_raw_data_frame [OF p]
  have 2: "closed_of st2 = closed_of st" "qmax_of st2 = qmax_of st"
    using config_limits [of st2 "mark_closed st (HPy_i dh) h"]
    by (simp_all add: mark_closed_frame)
  with ok m have "closed_queue_ok st2" "1 \<le> qmax_of st2"
    by (simp_all add: closed_queue_ok_def)
  from evict_room [OF e this] 2 r show ?thesis
    by (simp add: closed_queue_ok_def append_closed_frame DHQueue_append_def
          DHQueue_sanity_check_def)
qed

lemma open_closed_queue_ok:
  assumes c: "DHPy_open st u m = Inr (dh, st')" and ok: "closed_queue_ok st"
  shows "closed_queue_ok st'"
  using c
proof (rule open_cases)
  fix handle rest st1
  assume el: "elems (closed_of st) = handle # rest"
    and f: "DHPy_free_raw_data (set_info st ((info_of st)\<lparr>closed_handles :=
          \<lparr>elems = rest, size_q = size_q (closed_of st) - 1\<rparr>\<rparr>)) handle = Inr st1"
    and i: "(dh, st') = install_handle st1 u handle"
  from free_raw_data_frame [OF f] install_handle_frame(3,6) [OF i] el ok show ?thesis
    by (simp add: closed_queue_ok_def DHQueue_sanity_check_def proj_defs)
next
  assume "st' = st"
  with ok show ?thesis by simp
next
  assume "(dh, st') = install_handle st u m"
  from install_handle_frame(3,6) [OF this] ok show ?thesis
    by (simp add: closed_queue_ok_def)
qed

lemma step_closed_queue_ok:
  assumes s: "step st x = Inr st'" and ok: "closed_queue_ok st" and m: "1 \<le> qmax_of st"
  shows "closed_queue_ok st'"
proof (cases x)
  case (Op_open u m')
  with s obtain dh where "DHPy_open st u m' = Inr (dh, st')"
    by (auto split: sum.splits)
  from open_closed_queue_ok [OF this ok] show ?thesis .
next
  case (Op_close dh)
  with s have "DHPy_close st dh = Inr st'" by simp
  from close_closed_queue_ok [OF this ok m] show ?thesis .
next
  case (Op_unwrap dh)
  with s obtain u where "DHPy_unwrap st dh = Inr (u, st')"
    by (auto split: sum.splits)
  from unwrap_frame [OF this] ok show ?thesis by simp
next
  case (Op_attach dh d n)
  with s attach_frame [of st dh d n st'] ok show ?thesis
    by (simp add: closed_queue_ok_def proj_defs)
next
  case Op_new_generation
  with s new_generation_frame [of st st'] config_limits [of st' st] ok show ?thesis
    by (simp add: closed_queue_ok_def)
qed

lemma run_closed_queue_ok:
  "run st xs = Inr st' \<Longrightarrow> closed_queue_ok st \<Longrightarrow> 1 \<le> qmax_of st \<Longrightarrow> closed_queue_ok st'"
proof (induction xs arbitrary: st)
  case Nil
  then show ?case by simp
next
  case (Cons x xs)
  then obtain st1 where s: "step st x = Inr st1" and r: "run st1 xs = Inr st'"
    by (auto split: sum.splits)
  from step_closed_queue_ok [OF s Cons.prems(2,3)] step_frame [OF s] Cons.prems(3)
    config_limits [of st1 st]
  have "closed_queue_ok st1" "1 \<le> qmax_of st1" by simp_all
  from Cons.IH [OF r this] show ?case .
qed

lemma new_session_proj:
  "config_of (new_session q b cb) = (HPY_DEBUG_MAGIC, cb, q, b)"
  "qmax_of (new_session q b cb) = q"
  "budget_of (new_session q b cb) = b"
  "protected_of (new_session q b cb) = 0"
  "closed_of (new_session q b cb) = DHQueue_init"
  "heap (new_session q b cb) = Map.empty"
  by (simp_all add: new_session_def proj_defs info_of_def)

text \<open>What a close does when the queue of closed wrappers is full.\<close>

lemma protect_raw_data_trace:
  assumes "DHPy_protect_raw_data st a = Inr st'"
  shows "\<exists>evs. trace st' = trace st @ evs \<and> freed evs = [] \<and> dom (heap st') = dom (heap st)"
  using assms by (rule protect_raw_data_cases) (auto)

lemma free_raw_data_trace:
  assumes "DHPy_free_raw_data st a = Inr st'"
  shows "\<exists>evs. trace st' = trace st @ evs \<and> freed evs = []"
  using assms by (rule free_raw_data_cases) (auto)

lemma free_trace:
  assumes "DHPy_free st dh = Inr st'"
  shows "\<exists>evs. trace st' = trace st @ evs \<and> freed evs = [HPy_i dh] \<and> heap st' (HPy_i dh) = None"
  using assms
proof (rule free_cases)
  fix st1
  assume f: "DHPy_free_raw_data st (HPy_i dh) = Inr st1"
    and r: "st' = st1\<lparr>heap := (heap st1)(HPy_i dh := None),
                    trace := trace st1 @ [Ev_free (HPy_i dh)]\<rparr>"
  from free_raw_data_trace [OF f] obtain evs where "trace st1 = trace st @ evs" "freed evs = []"
    by blast
  with r have "trace st' = trace st @ (evs @ [Ev_free (HPy_i dh)])"
    "freed (evs @ [Ev_free (HPy_i dh)]) = [HPy_i dh]" "heap st' (HPy_i dh) = None"
    by simp_all
  then show ?thesis by blast
qed

lemma close_evicts:
  assumes c: "DHPy_close st dh = Inr st'" and ok: "closed_queue_ok st" and m: "1 \<le> qmax_of st"
    and full: "size_q (closed_of st) + 1 > qmax_of st"
  shows "\<exists>oldest rest evs. elems (closed_of st) = oldest # rest
    \<and> elems (closed_of st') = rest @ [HPy_i dh]
    \<and> size_q (closed_of st') = size_q (closed_of st)
    \<and> heap st' oldest = None
    \<and> trace st' = trace st @ evs \<and> freed evs = [oldest]"
  using c
proof (rule close_cases)
  fix h st2 st3
  assume p: "DHPy_protect_raw_data (mark_closed st (HPy_i dh) h) (HPy_i dh) = Inr st2"
    and e: "evict_oldest st2 = Inr st3"
    and r: "st' = append_closed st3 (HPy_i dh)"
  from protect_raw_data_frame [OF p]
  have 2: "closed_of st2 = closed_of st" "qmax_of st2 = qmax_of st"
    using config_limits [of st2 "mark_closed st (HPy_i dh) h"]
    by (simp_all add: mark_closed_frame)
  from protect_raw_data_trace [OF p] obtain evs1 where
    t2: "trace st2 = trace st @ evs1" "freed evs1 = []"
    by (auto simp: mark_closed_frame)
  from ok m full have ne: "elems (closed_of st) \<noteq> []"
    by (auto simp: closed_queue_ok_def DHQueue_sanity_check_def)
  from e show ?thesis
  proof (rule evict_cases)
    assume "size_q (closed_of st2) + 1 \<le> qmax_of st2"
    with 2 full show ?thesis by simp
  next
    assume "elems (closed_of st2) = []"
    with 2 ne show ?thesis by simp
  next
    fix oldest rest
    assume el: "elems (closed_of st2) = oldest # rest"
      and f: "DHPy_free (set_info st2 ((info_of st2)\<lparr>closed_handles :=
          \<lparr>elems = rest, size_q = size_q (closed_of st2) - 1\<rparr>\<rparr>)) (as_DHPy oldest) = Inr st3"
    from free_trace [OF f] obtain evs2 where
      t3: "trace st3 = trace st2 @ evs2" "freed evs2 = [oldest]" "heap st3 oldest = None"
      by (auto simp: as_DHPy_def)
    from free_frame [OF f] have c3: "closed_of st3 = \<lparr>elems = rest, size_q = size_q (closed_of st2) - 1\<rparr>"
      by (simp add: proj_defs)
    from t2 t3 have "trace st' = trace st @ (evs1 @ evs2)" "freed (evs1 @ evs2) = [oldest]"
      by (simp_all add: r append_closed_frame)
    moreover have "elems (closed_of st) = oldest # rest" using el 2 by simp
    moreover have "elems (closed_of st') = rest @ [HPy_i dh]"
      "size_q (closed_of st') = size_q (closed_of st)"
      using c3 2 by (simp_all add: r append_closed_frame DHQueue_append_def)
    moreover have "heap st' oldest = None" using t3 by (simp add: r append_closed_frame)
    ultimately show ?thesis by blast
  qed
qed

text \<open>With a maximum of 0 no wrapper can be opened, and nothing is ever
  closed.\<close>

lemma step_no_wrapper:
  assumes s: "step st x = Inr st'" and h: "heap st = Map.empty"
    and c: "closed_of st = DHQueue_init" and q: "qmax_of st = 0"
  shows "heap st' = Map.empty \<and> closed_of st' = DHQueue_init \<and> qmax_of st' = 0"
proof (cases x)
  case (Op_open u m)
  with s obtain dh where "DHPy_open st u m = Inr (dh, st')"
    by (auto split: sum.splits)
  then show ?thesis
    by (rule open_cases) (use c q in \<open>simp_all add: DHQueue_init_def\<close>)
next
  case (Op_close dh)
  with s have "DHPy_close st dh = Inr st'" by simp
  then show ?thesis
    by (rule close_cases) (use h in simp)
next
  case (Op_unwrap dh)
  with s obtain u where "DHPy_unwrap st dh = Inr (u, st')"
    by (auto split: sum.splits)
  from unwrap_frame [OF this] h c q show ?thesis by simp
next
  case (Op_attach dh d n)
  with s h show ?thesis
    by (auto simp: attach_raw_data_def deref_def dest!: unwrap_frame
          split: sum.splits option.splits)
next
  case Op_new_generation
  with s new_generation_frame [of st st'] config_limits [of st' st] h c q show ?thesis
    by simp
qed

lemma run_no_wrapper:
  "run st xs = Inr st' \<Longrightarrow> heap st = Map.empty \<Longrightarrow> closed_of st = DHQueue_init \<Longrightarrow>
     qmax_of st = 0 \<Longrightarrow>
     heap st' = Map.empty \<and> closed_of st' = DHQueue_init \<and> qmax_of st' = 0"
proof (induction xs arbitrary: st)
  case Nil
  then show ?case by simp
next
  case (Cons x xs)
  then obtain st1 where s: "step st x = Inr st1" and r: "run st1 xs = Inr st'"
    by (auto split: sum.splits)
  from step_no_wrapper [OF s Cons.prems(2,3,4)]
  have "heap st1 = Map.empty" "closed_of st1 = DHQueue_init" "qmax_of st1 = 0"
    by simp_all
  from Cons.IH [OF r this] show ?case .
qed

subsection \<open>The budget of protected bytes\<close>

lemma budget_ok_set_closed [simp]:
  "budget_ok (set_info st ((info_of st)\<lparr>closed_handles := q\<rparr>)) = budget_ok st"
  by (simp add: budget_ok_def proj_defs)

lemma free_raw_data_budget:
  assumes f: "DHPy_free_raw_data st a = Inr st'" and ok: "budget_ok st"
  shows "budget_ok st' \<and> protected_of st' \<le> protected_of st"
  using f
proof (rule free_raw_data_cases)
  fix h
  assume "heap st a = Some h" "associated_data h = NULL" "st' = st"
  with ok show ?thesis by simp
next
  fix h
  assume h: "heap st a = Some h"
    and r: "st' = (set_info st ((info_of st)\<lparr>protected_raw_data_size :=
                 protected_raw_data_size (info_of st) - associated_data_size h\<rparr>))
              \<lparr>heap := (heap st)(a \<mapsto> h\<lparr>associated_data := NULL\<rparr>),
               trace := trace st @
                 [Ev_raw_data_free (associated_data h) (associated_data_size h)]\<rparr>"
  from ok h have "0 \<le> associated_data_size h" by (simp add: budget_ok_def)
  with ok r show ?thesis by (auto simp: budget_ok_def proj_defs)
qed

lemma protect_raw_data_budget:
  assumes p: "DHPy_protect_raw_data st a = Inr st'" and ok: "budget_ok st"
  shows "budget_ok st'"
  using p
proof (rule protect_raw_data_cases)
  fix h
  assume "heap st a = Some h" "associated_data h = NULL" "st' = st"
  with ok show ?thesis by simp
next
  fix h
  assume "heap st a = Some h"
    and "st' = st\<lparr>heap := (heap st)(a \<mapsto> h\<lparr>associated_data := NULL\<rparr>),
                trace := trace st @
                  [Ev_raw_data_free (associated_data h) (associated_data_size h)]\<rparr>"
  with ok show ?thesis by (auto simp: budget_ok_def proj_defs)
next
  fix h
  assume "heap st a = Some h"
    and "protected_of st + associated_data_size h \<le> budget_of st"
    and "st' = (set_info st ((info_of st)\<lparr>protected_raw_data_size :=
                 protected_raw_data_size (info_of st) + associated_data_size h\<rparr>))
              \<lparr>trace := trace st @
                 [Ev_raw_data_protect (associated_data h) (associated_data_size h)]\<rparr>"
  with ok show ?thesis by (auto simp: budget_ok_def proj_defs)
qed

lemma free_budget:
  assumes f: "DHPy_free st dh = Inr st'" and ok: "budget_ok st"
  shows "budget_ok st' \<and> protected_of st' \<le> protected_of st"
  using f
proof (rule free_cases)
  fix st1
  assume f1: "DHPy_free_raw_data st (HPy_i dh) = Inr st1"
    and r: "st' = st1\<lparr>heap := (heap st1)(HPy_i dh := None),
                    trace := trace st1 @ [Ev_free (HPy_i dh)]\<rparr>"
  from free_raw_data_budget [OF f1 ok] r show ?thesis
    by (auto simp: budget_ok_def proj_defs)
qed

lemma evict_budget:
  assumes e: "evict_oldest st = Inr st'" and ok: "budget_ok st"
  shows "budget_ok st' \<and> protected_of st' \<le> protected_of st
    \<and> (size_q (closed_of st) + 1 \<le> qmax_of st \<longrightarrow> st' = st)"
  using e
proof (rule evict_cases)
  fix oldest rest
  assume full: "size_q (closed_of st) + 1 > qmax_of st"
    and f: "DHPy_free (set_info st ((info_of st)\<lparr>closed_handles :=
          \<lparr>elems = rest, size_q = size_q (closed_of st) - 1\<rparr>\<rparr>)) (as_DHPy oldest) = Inr st'"
  from free_budget [OF f] ok full show ?thesis by (simp add: proj_defs)
qed (use ok in simp_all)

lemma mark_closed_budget:
  assumes "heap st a = Some h" and "budget_ok st"
  shows "budget_ok (mark_closed st a h)"
  using assms by (auto simp: budget_ok_def mark_closed_frame)

lemma close_budget:
  assumes c: "DHPy_close st dh = Inr st'" and ok: "budget_ok st"
  shows "budget_ok st'"
  using c
proof (rule close_cases)
  fix h st2 st3
  assume h: "heap st (HPy_i dh) = Some h"
    and p: "DHPy_protect_raw_data (mark_closed st (HPy_i dh) h) (HPy_i dh) = Inr st2"
    and e: "evict_oldest st2 = Inr st3"
    and r: "st' = append_closed st3 (HPy_i dh)"
  from protect_raw_data_budget [OF p mark_closed_budget [OF h ok]] have "budget_ok st2" .
  from evict_budget [OF e this] r show ?thesis
    by (simp add: budget_ok_def append_closed_frame)
qed

lemma install_handle_budget:
  assumes i: "(dh, st') = install_handle st u a" and ok: "budget_ok st"
  shows "budget_ok st'"
  using install_handle_frame(4,5,8) [OF i] ok by (auto simp: budget_ok_def)

lemma open_budget:
  assumes c: "DHPy_open st u m = Inr (dh, st')" and ok: "budget_ok st"
  shows "budget_ok st'"
  using c
proof (rule open_cases)
  fix handle rest st1
  assume f: "DHPy_free_raw_data (set_info st ((info_of st)\<lparr>closed_handles :=
          \<lparr>elems = rest, size_q = size_q (closed_of st) - 1\<rparr>\<rparr>)) handle = Inr st1"
    and i: "(dh, st') = install_handle st1 u handle"
  from free_raw_data_budget [OF f] ok have "budget_ok st1" by simp
  from install_handle_budget [OF i this] show ?thesis .
next
  assume "st' = st"
  with ok show ?thesis by simp
next
  assume "(dh, st') = install_handle st u m"
  from install_handle_budget [OF this ok] show ?thesis .
qed

lemma attach_budget:
  assumes a: "attach_raw_data st dh d n = Inr st'" and ok: "budget_ok st"
  shows "budget_ok st'"
proof -
  from a obtain u st1 h where u: "DHPy_unwrap st dh = Inr (u, st1)"
    and r: "st' = st1\<lparr>heap := (heap st1)(HPy_i dh \<mapsto>
                h\<lparr>associated_data := d, associated_data_size := int n\<rparr>)\<rparr>"
    by (auto simp: attach_raw_data_def as_DebugHandle_def deref_def
          split: sum.splits option.splits)
  from unwrap_frame [OF u] r ok show ?thesis
    by (auto simp: budget_ok_def proj_defs)
qed

lemma step_budget:
  assumes s: "step st x = Inr st'" and ok: "budget_ok st"
  shows "budget_ok st'"
proof (cases x)
  case (Op_open u m)
  with s obtain dh where "DHPy_open st u m = Inr (dh, st')"
    by (auto split: sum.splits)
  from open_budget [OF this ok] show ?thesis .
next
  case (Op_close dh)
  with s have "DHPy_close st dh = Inr st'" by simp
  from close_budget [OF this ok] show ?thesis .
next
  case (Op_unwrap dh)
  with s obtain u where "DHPy_unwrap st dh = Inr (u, st')"
    by (auto split: sum.splits)
  from unwrap_frame [OF this] ok show ?thesis by simp
next
  case (Op_attach dh d n)
  with s have "attach_raw_data st dh d n = Inr st'" by simp
  from attach_budget [OF this ok] show ?thesis .
next
  case Op_new_generation
  with s new_generation_frame [of st st'] config_limits [of st' st] ok show ?thesis
    by (simp add: budget_ok_def)
qed

lemma run_budget:
  "run st xs = Inr st' \<Longrightarrow> budget_ok st \<Longrightarrow> budget_ok st'"
proof (induction xs arbitrary: st)
  case Nil
  then show ?case by simp
next
  case (Cons x xs)
  then obtain st1 where s: "step st x = Inr st1" and r: "run st1 xs = Inr st'"
    by (auto split: sum.splits)
  from Cons.IH [OF r step_budget [OF s Cons.prems(2)]] show ?case .
qed

lemma evict_trace:
  assumes e: "evict_oldest st = Inr st'"
  shows "\<exists>evs. trace st' = trace st @ evs \<and> (\<forall>d n. Ev_raw_data_protect d n \<notin> set evs)"
  using e
proof (rule evict_cases)
  fix oldest rest
  assume f: "DHPy_free (set_info st ((info_of st)\<lparr>closed_handles :=
          \<lparr>elems = rest, size_q = size_q (closed_of st) - 1\<rparr>\<rparr>)) (as_DHPy oldest) = Inr st'"
  from f show ?thesis
  proof (rule free_cases)
    fix st1
    assume f1: "DHPy_free_raw_data (set_info st ((info_of st)\<lparr>closed_handles :=
          \<lparr>elems = rest, size_q = size_q (closed_of st) - 1\<rparr>\<rparr>)) (HPy_i (as_DHPy oldest)) = Inr st1"
      and r: "st' = st1\<lparr>heap := (heap st1)(HPy_i (as_DHPy oldest) := None),
                    trace := trace st1 @ [Ev_free (HPy_i (as_DHPy oldest))]\<rparr>"
    from f1 show ?thesis
      by (rule free_raw_data_cases) (use r in auto)
  qed
qed simp_all

lemma close_over_budget:
  assumes c: "DHPy_close st dh = Inr st'" and ok: "budget_ok st"
    and h: "heap st (HPy_i dh) = Some h" and d: "associated_data h \<noteq> NULL"
    and over: "protected_of st + associated_data_size h > budget_of st"
  shows "\<exists>st2 evs.
      DHPy_protect_raw_data (mark_closed st (HPy_i dh) h) (HPy_i dh) = Inr st2
    \<and> trace st2 = trace st @ [Ev_raw_data_free (associated_data h) (associated_data_size h)]
    \<and> protected_of st2 = protected_of st
    \<and> heap st2 (HPy_i dh) = Some (h\<lparr>is_closed := True, associated_data := NULL\<rparr>)
    \<and> trace st' = trace st2 @ evs
    \<and> (\<forall>d' n'. Ev_raw_data_protect d' n' \<notin> set evs)
    \<and> protected_of st' \<le> protected_of st
    \<and> (size_q (closed_of st) + 1 \<le> qmax_of st \<longrightarrow>
          protected_of st' = protected_of st \<and> evs = [])"
  using c
proof (rule close_cases)
  fix h' st2 st3
  assume h': "heap st (HPy_i dh) = Some h'"
    and p: "DHPy_protect_raw_data (mark_closed st (HPy_i dh) h') (HPy_i dh) = Inr st2"
    and e: "evict_oldest st2 = Inr st3"
    and r: "st' = append_closed st3 (HPy_i dh)"
  from h h' have hh: "h' = h" by simp
  let ?st1 = "mark_closed st (HPy_i dh) h"
  from p hh have p': "DHPy_protect_raw_data ?st1 (HPy_i dh) = Inr st2" by simp
  have 2: "st2 = ?st1\<lparr>heap := (heap ?st1)(HPy_i dh \<mapsto> h\<lparr>is_closed := True, associated_data := NULL\<rparr>),
                trace := trace ?st1 @
                  [Ev_raw_data_free (associated_data h) (associated_data_size h)]\<rparr>"
    using p'
    by (rule protect_raw_data_cases) (use d over in \<open>auto simp: mark_closed_frame\<close>)
  then have t2: "trace st2 = trace st @ [Ev_raw_data_free (associated_data h) (associated_data_size h)]"
    and q2: "protected_of st2 = protected_of st"
    and h2: "heap st2 (HPy_i dh) = Some (h\<lparr>is_closed := True, associated_data := NULL\<rparr>)"
    and c2: "closed_of st2 = closed_of st" "qmax_of st2 = qmax_of st"
    by (simp_all add: mark_closed_frame proj_defs mark_closed_def)
  from protect_raw_data_budget [OF p' mark_closed_budget [OF h ok]] have ok2: "budget_ok st2" .
  from evict_trace [OF e] obtain evs where
    t3: "trace st3 = trace st2 @ evs" "\<forall>d n. Ev_raw_data_protect d n \<notin> set evs"
    by blast
  from evict_budget [OF e ok2] have
    b3: "protected_of st3 \<le> protected_of st2"
      "size_q (closed_of st2) + 1 \<le> qmax_of st2 \<longrightarrow> st3 = st2"
    by simp_all
  have "trace st' = trace st2 @ evs" using t3 r by (simp add: append_closed_frame)
  moreover have "protected_of st' \<le> protected_of st"
    using b3 q2 r by (simp add: append_closed_frame)
  moreover have "size_q (closed_of st) + 1 \<le> qmax_of st \<longrightarrow>
          protected_of st' = protected_of st \<and> evs = []"
    using b3 c2 q2 t3 r by (auto simp: append_closed_frame)
  ultimately show ?thesis using p' t2 q2 h2 t3 by blast
qed

subsection \<open>Generations\<close>

lemma open_generation:
  assumes o: "DHPy_open st u m = Inr (dh, st')" and n: "\<not> HPy_IsNull dh"
  shows "\<exists>h. heap st' (HPy_i dh) = Some h \<and> generation h = gen_of st \<and> uh h = u
    \<and> \<not> is_closed h"
  using o
proof (rule open_cases)
  fix handle rest st1
  assume f: "DHPy_free_raw_data (set_info st ((info_of st)\<lparr>closed_handles :=
          \<lparr>elems = rest, size_q = size_q (closed_of st) - 1\<rparr>\<rparr>)) handle = Inr st1"
    and i: "(dh, st') = install_handle st1 u handle"
  from free_raw_data_frame [OF f] have "gen_of st1 = gen_of st" by (simp add: proj_defs)
  with install_handle_frame(8,9) [OF i] show ?thesis by (simp add: as_DHPy_def)
next
  assume "dh = HPy_NULL"
  with n show ?thesis by (simp add: HPy_IsNull_def HPy_NULL_def)
next
  assume "(dh, st') = install_handle st u m"
  from install_handle_frame(8,9) [OF this] show ?thesis by (simp add: as_DHPy_def)
qed

subsection \<open>Closed wrappers\<close>

lemma closed_is_rejected:
  assumes n: "\<not> HPy_IsNull dh" and h: "heap st (HPy_i dh) = Some h" and c: "is_closed h"
    and al: "HPy_i dh AND 1 = 0"
  shows "DHPy_unwrap st dh = (case DHPy_invalid_handle st dh of Inl e \<Rightarrow> Inl e
            | Inr st' \<Rightarrow> Inr (uh h, st'))"
    and "DHPy_close st dh = DHPy_invalid_handle st dh"
    and "\<exists>e. DHPy_invalid_handle st dh = Inl e
       \<and> (magic_number (info_of st) = HPY_DEBUG_MAGIC \<longrightarrow>
            e = Fatal_invalid_handle dh (\<not> HPy_IsNull (uh_on_invalid_handle (info_of st))))"
  using assms
  by (auto simp: DHPy_unwrap_def DHPy_close_def DHPy_invalid_handle_def as_DebugHandle_def
        DHPy_sanity_check_def deref_def get_info_def info_of_def Let_def split: sum.splits)

lemma free_raw_data_heap:
  assumes "DHPy_free_raw_data st a = Inr st'" and "b \<noteq> a"
  shows "heap st' b = heap st b"
  using assms(1) by (rule free_raw_data_cases) (use assms(2) in auto)

lemma free_heap:
  assumes "DHPy_free st dh = Inr st'" and "b \<noteq> HPy_i dh"
  shows "heap st' b = heap st b"
  using assms(1)
proof (rule free_cases)
  fix st1
  assume f: "DHPy_free_raw_data st (HPy_i dh) = Inr st1"
    and r: "st' = st1\<lparr>heap := (heap st1)(HPy_i dh := None),
                    trace := trace st1 @ [Ev_free (HPy_i dh)]\<rparr>"
  from free_raw_data_heap [OF f assms(2)] r assms(2) show ?thesis by simp
qed

lemma evict_heap:
  assumes "evict_oldest st = Inr st'" and "b \<notin> set (elems (closed_of st))"
  shows "heap st' b = heap st b"
  using assms(1)
proof (rule evict_cases)
  fix oldest rest
  assume el: "elems (closed_of st) = oldest # rest"
    and f: "DHPy_free (set_info st ((info_of st)\<lparr>closed_handles :=
          \<lparr>elems = rest, size_q = size_q (closed_of st) - 1\<rparr>\<rparr>)) (as_DHPy oldest) = Inr st'"
  from el assms(2) have "b \<noteq> HPy_i (as_DHPy oldest)" by (auto simp: as_DHPy_def)
  from free_heap [OF f this] show ?thesis by simp
qed simp_all

lemma protect_raw_data_closed:
  assumes "DHPy_protect_raw_data st a = Inr st'" and "heap st a = Some h"
  shows "\<exists>h'. heap st' a = Some h' \<and> is_closed h' = is_closed h"
  using assms(1) by (rule protect_raw_data_cases) (use assms(2) in auto)

lemma close_marks_closed:
  assumes c: "DHPy_close st dh = Inr st'" and nq: "HPy_i dh \<notin> set (elems (closed_of st))"
  shows "\<exists>h'. heap st' (HPy_i dh) = Some h' \<and> is_closed h' \<and> HPy_i dh AND 1 = 0
    \<and> magic_number (info_of st') = HPY_DEBUG_MAGIC
    \<and> uh_on_invalid_handle (info_of st') = uh_on_invalid_handle (info_of st)"
  using c
proof (rule close_cases)
  fix h st2 st3
  assume mg: "magic_number (info_of st) = HPY_DEBUG_MAGIC" and al: "HPy_i dh AND 1 = 0"
    and p: "DHPy_protect_raw_data (mark_closed st (HPy_i dh) h) (HPy_i dh) = Inr st2"
    and e: "evict_oldest st2 = Inr st3"
    and r: "st' = append_closed st3 (HPy_i dh)"
  from protect_raw_data_closed [OF p, of "h\<lparr>is_closed := True\<rparr>"]
  obtain h2 where h2: "heap st2 (HPy_i dh) = Some h2" "is_closed h2"
    by (auto simp: mark_closed_frame)
  from protect_raw_data_frame [OF p] have "closed_of st2 = closed_of st"
    by (simp add: mark_closed_frame)
  with nq have "HPy_i dh \<notin> set (elems (closed_of st2))" by simp
  from evict_heap [OF e this] h2 r
  have "heap st' (HPy_i dh) = Some h2" by (simp add: append_closed_frame)
  moreover from close_frame [OF c] mg
  have "magic_number (info_of st') = HPY_DEBUG_MAGIC"
    "uh_on_invalid_handle (info_of st') = uh_on_invalid_handle (info_of st)"
    by (simp_all add: proj_defs)
  ultimately show ?thesis using h2 al by simp
qed

subsection \<open>The queue of closed wrappers holds closed wrappers\<close>

lemma free_raw_data_quarantine:
  assumes f: "DHPy_free_raw_data st a = Inr st'"
  shows "dom (heap st') = dom (heap st)"
    and "heap st b = Some h \<Longrightarrow> \<exists>h'. heap st' b = Some h' \<and> is_closed h' = is_closed h"
  using f by (rule free_raw_data_cases; auto)+

lemma protect_raw_data_quarantine:
  assumes f: "DHPy_protect_raw_data st a = Inr st'"
  shows "dom (heap st') = dom (heap st)"
    and "heap st b = Some h \<Longrightarrow> \<exists>h'. heap st' b = Some h' \<and> is_closed h' = is_closed h"
  using f by (rule protect_raw_data_cases; auto)+

lemma quarantine_ok_heap_dom:
  "quarantine_ok st \<Longrightarrow> heap st a = Some h \<Longrightarrow> a \<noteq> NULL \<and> a AND 1 = 0"
  by (auto simp: quarantine_ok_def)

lemma quarantine_ok_member:
  "quarantine_ok st \<Longrightarrow> a \<in> set (elems (closed_of st)) \<Longrightarrow>
     \<exists>h. heap st a = Some h \<and> is_closed h"
  by (auto simp: quarantine_ok_def)

lemma install_handle_quarantine:
  assumes i: "(dh, st') = install_handle st u a" and ok: "quarantine_ok st"
    and a: "a \<noteq> NULL" "a AND 1 = 0" "a \<notin> set (elems (closed_of st))"
  shows "quarantine_ok st'"
  using install_handle_frame(3,8) [OF i] ok a
  by (auto simp: quarantine_ok_def)

lemma open_quarantine:
  assumes o: "DHPy_open st u m = Inr (dh, st')" and ok: "quarantine_ok st"
    and fr: "fresh_storage st m"
  shows "quarantine_ok st'"
  using o
proof (rule open_cases)
  fix handle rest st1
  assume el: "elems (closed_of st) = handle # rest"
    and f: "DHPy_free_raw_data (set_info st ((info_of st)\<lparr>closed_handles :=
          \<lparr>elems = rest, size_q = size_q (closed_of st) - 1\<rparr>\<rparr>)) handle = Inr st1"
    and i: "(dh, st') = install_handle st1 u handle"
  let ?st0 = "set_info st ((info_of st)\<lparr>closed_handles :=
          \<lparr>elems = rest, size_q = size_q (closed_of st) - 1\<rparr>\<rparr>)"
  from ok el have d: "handle \<notin> set rest" "distinct rest"
    by (auto simp: quarantine_ok_def)
  from ok el obtain h where h: "heap st handle = Some h"
    by (auto simp: quarantine_ok_def)
  from free_raw_data_frame [OF f] have c1: "elems (closed_of st1) = rest"
    by (simp add: proj_defs)
  have "quarantine_ok st1"
    unfolding quarantine_ok_def
  proof (intro conjI ballI allI impI)
    show "distinct (elems (closed_of st1))" using c1 d by simp
  next
    fix a assume "a \<in> set (elems (closed_of st1))"
    with c1 el have "a \<in> set (elems (closed_of st))" by simp
    from quarantine_ok_member [OF ok this] obtain ha where
      "heap ?st0 a = Some ha" "is_closed ha" by auto
    with free_raw_data_quarantine(2) [OF f, of a ha]
    show "\<exists>h. heap st1 a = Some h \<and> is_closed h" by auto
  next
    fix a ha assume "heap st1 a = Some ha"
    then have "a \<in> dom (heap st1)" by auto
    with free_raw_data_quarantine(1) [OF f] obtain hb where "heap st a = Some hb" by auto
    from quarantine_ok_heap_dom [OF ok this]
    show "a \<noteq> NULL" "a AND 1 = 0" by simp_all
  qed
  moreover from quarantine_ok_heap_dom [OF ok h] have "handle \<noteq> NULL" "handle AND 1 = 0"
    by simp_all
  moreover from c1 d have "handle \<notin> set (elems (closed_of st1))" by simp
  ultimately show ?thesis using install_handle_quarantine [OF i] by blast
next
  assume "st' = st"
  with ok show ?thesis by simp
next
  assume m: "m \<noteq> NULL" and i: "(dh, st') = install_handle st u m"
  from fr m have f: "heap st m = None" "m AND 1 = 0" by (auto simp: fresh_storage_def)
  from f(1) ok have "m \<notin> set (elems (closed_of st))"
    by (auto simp: quarantine_ok_def)
  from install_handle_quarantine [OF i ok m f(2) this] show ?thesis .
qed

lemma free_quarantine:
  assumes f: "DHPy_free st dh = Inr st'" and ok: "quarantine_ok st"
    and n: "HPy_i dh \<notin> set (elems (closed_of st))"
  shows "quarantine_ok st'"
  using f
proof (rule free_cases)
  fix st1
  assume f1: "DHPy_free_raw_data st (HPy_i dh) = Inr st1"
    and r: "st' = st1\<lparr>heap := (heap st1)(HPy_i dh := None),
                    trace := trace st1 @ [Ev_free (HPy_i dh)]\<rparr>"
  from free_raw_data_frame [OF f1] have c1: "closed_of st1 = closed_of st" by simp
  show ?thesis
    unfolding quarantine_ok_def
  proof (intro conjI ballI allI impI)
    show "distinct (elems (closed_of st'))" using c1 ok r by (simp add: quarantine_ok_def)
  next
    fix a assume a: "a \<in> set (elems (closed_of st'))"
    with c1 r have m: "a \<in> set (elems (closed_of st))" by simp
    with n have ne: "a \<noteq> HPy_i dh" by auto
    from quarantine_ok_member [OF ok m] obtain ha where "heap st a = Some ha" "is_closed ha"
      by auto
    with free_raw_data_quarantine(2) [OF f1, of a ha] ne r
    show "\<exists>h. heap st' a = Some h \<and> is_closed h" by auto
  next
    fix a ha assume "heap st' a = Some ha"
    with r have "a \<in> dom (heap st1)" by (auto split: if_splits)
    with free_raw_data_quarantine(1) [OF f1] obtain hb where "heap st a = Some hb" by auto
    from quarantine_ok_heap_dom [OF ok this]
    show "a \<noteq> NULL" "a AND 1 = 0" by simp_all
  qed
qed

lemma evict_quarantine:
  assumes e: "evict_oldest st = Inr st'" and ok: "quarantine_ok st"
  shows "quarantine_ok st' \<and> set (elems (closed_of st')) \<subseteq> set (elems (closed_of st))
    \<and> (\<forall>b h. b \<notin> set (elems (closed_of st)) \<longrightarrow> heap st' b = heap st b)"
  using e
proof (rule evict_cases)
  fix oldest rest
  assume el: "elems (closed_of st) = oldest # rest"
    and f: "DHPy_free (set_info st ((info_of st)\<lparr>closed_handles :=
          \<lparr>elems = rest, size_q = size_q (closed_of st) - 1\<rparr>\<rparr>)) (as_DHPy oldest) = Inr st'"
  let ?st0 = "set_info st ((info_of st)\<lparr>closed_handles :=
          \<lparr>elems = rest, size_q = size_q (closed_of st) - 1\<rparr>\<rparr>)"
  from ok el have d: "oldest \<notin> set rest" "distinct rest"
    by (auto simp: quarantine_ok_def)
  have c0: "elems (closed_of ?st0) = rest" by (simp add: proj_defs)
  have "quarantine_ok ?st0"
    using ok el d by (auto simp: quarantine_ok_def proj_defs)
  moreover have "HPy_i (as_DHPy oldest) \<notin> set (elems (closed_of ?st0))"
    using c0 d by (simp add: as_DHPy_def)
  ultimately have "quarantine_ok st'" using free_quarantine [OF f] by blast
  moreover from free_frame [OF f] c0 el
  have "set (elems (closed_of st')) \<subseteq> set (elems (closed_of st))" by auto
  moreover have "\<forall>b h. b \<notin> set (elems (closed_of st)) \<longrightarrow> heap st' b = heap st b"
    using evict_heap [OF e] by simp
  ultimately show ?thesis by blast
qed (use ok in simp_all)

lemma close_quarantine:
  assumes c: "DHPy_close st dh = Inr st'" and ok: "quarantine_ok st"
  shows "quarantine_ok st'"
  using c
proof (rule close_cases)
  fix h st2 st3
  assume h: "heap st (HPy_i dh) = Some h" and o: "\<not> is_closed h"
    and p: "DHPy_protect_raw_data (mark_closed st (HPy_i dh) h) (HPy_i dh) = Inr st2"
    and e: "evict_oldest st2 = Inr st3"
    and r: "st' = append_closed st3 (HPy_i dh)"
  let ?a = "HPy_i dh"
  let ?st1 = "mark_closed st ?a h"
  from ok h o have nq: "?a \<notin> set (elems (closed_of st))"
    by (auto simp: quarantine_ok_def)
  from protect_raw_data_frame [OF p] have c2: "closed_of st2 = closed_of st"
    by (simp add: mark_closed_frame)
  have ok1: "quarantine_ok ?st1"
    using ok h by (auto simp: quarantine_ok_def mark_closed_frame)
  have ok2: "quarantine_ok st2"
    unfolding quarantine_ok_def
  proof (intro conjI ballI allI impI)
    show "distinct (elems (closed_of st2))" using c2 ok by (simp add: quarantine_ok_def)
  next
    fix a assume "a \<in> set (elems (closed_of st2))"
    with c2 have "a \<in> set (elems (closed_of ?st1))" by (simp add: mark_closed_frame)
    from quarantine_ok_member [OF ok1 this] obtain ha where
      "heap ?st1 a = Some ha" "is_closed ha" by auto
    with protect_raw_data_quarantine(2) [OF p, of a ha]
    show "\<exists>h. heap st2 a = Some h \<and> is_closed h" by auto
  next
    fix a ha assume "heap st2 a = Some ha"
    then have "a \<in> dom (heap st2)" by auto
    with protect_raw_data_quarantine(1) [OF p] obtain hb where "heap ?st1 a = Some hb" by auto
    from quarantine_ok_heap_dom [OF ok1 this]
    show "a \<noteq> NULL" "a AND 1 = 0" by simp_all
  qed
  from protect_raw_data_quarantine(2) [OF p, of ?a "h\<lparr>is_closed := True\<rparr>"]
  obtain h2 where h2: "heap st2 ?a = Some h2" "is_closed h2"
    by (auto simp: mark_closed_frame)
  from evict_quarantine [OF e ok2] c2 nq
  have ok3: "quarantine_ok st3" and s3: "set (elems (closed_of st3)) \<subseteq> set (elems (closed_of st))"
    and h3: "heap st3 ?a = heap st2 ?a"
    by auto
  from s3 nq have n3: "?a \<notin> set (elems (closed_of st3))" by auto
  from ok3 n3 h3 h2 r show ?thesis
    by (auto simp: quarantine_ok_def append_closed_frame DHQueue_append_def)
qed

lemma attach_quarantine:
  assumes a: "attach_raw_data st dh d n = Inr st'" and ok: "quarantine_ok st"
  shows "quarantine_ok st'"
proof -
  from a obtain u st1 h where u: "DHPy_unwrap st dh = Inr (u, st1)"
    and h: "heap st1 (HPy_i dh) = Some h"
    and r: "st' = st1\<lparr>heap := (heap st1)(HPy_i dh \<mapsto>
                h\<lparr>associated_data := d, associated_data_size := int n\<rparr>)\<rparr>"
    by (auto simp: attach_raw_data_def as_DebugHandle_def deref_def
          split: sum.splits option.splits)
  from unwrap_frame [OF u] r h ok show ?thesis
    by (auto simp: quarantine_ok_def)
qed

lemma step_quarantine:
  assumes s: "step st x = Inr st'" and ok: "quarantine_ok st"
    and w: "case x of Op_open u m \<Rightarrow> fresh_storage st m | _ \<Rightarrow> True"
  shows "quarantine_ok st'"
proof (cases x)
  case (Op_open u m)
  with s obtain dh where "DHPy_open st u m = Inr (dh, st')"
    by (auto split: sum.splits)
  from open_quarantine [OF this ok] w Op_open show ?thesis by simp
next
  case (Op_close dh)
  with s have "DHPy_close st dh = Inr st'" by simp
  from close_quarantine [OF this ok] show ?thesis .
next
  case (Op_unwrap dh)
  with s obtain u where "DHPy_unwrap st dh = Inr (u, st')"
    by (auto split: sum.splits)
  from unwrap_frame [OF this] ok show ?thesis by simp
next
  case (Op_attach dh d n)
  with s have "attach_raw_data st dh d n = Inr st'" by simp
  from attach_quarantine [OF this ok] show ?thesis .
next
  case Op_new_generation
  with s new_generation_frame [of st st'] ok show ?thesis
    by (simp add: quarantine_ok_def)
qed

lemma run_quarantine:
  "run st xs = Inr st' \<Longrightarrow> quarantine_ok st \<Longrightarrow> well_allocated st xs \<Longrightarrow> quarantine_ok st'"
proof (induction xs arbitrary: st)
  case Nil
  then show ?case by simp
next
  case (Cons x xs)
  then obtain st1 where s: "step st x = Inr st1" and r: "run st1 xs = Inr st'"
    by (auto split: sum.splits)
  from Cons.prems(3) s have w: "case x of Op_open u m \<Rightarrow> fresh_storage st m | _ \<Rightarrow> True"
    and w1: "well_allocated st1 xs" by simp_all
  from Cons.IH [OF r step_quarantine [OF s Cons.prems(2) w] w1] show ?case .
qed

lemma close_enqueues:
  assumes "DHPy_close st dh = Inr st'"
  shows "HPy_i dh \<in> set (elems (closed_of st'))"
  using assms
  by (rule close_cases) (simp add: append_closed_frame DHQueue_append_def)

lemma new_session_quarantine: "quarantine_ok (new_session q b cb)"
  by (simp add: quarantine_ok_def new_session_proj DHQueue_init_def)

text \<open>The definitions that evaluate an operation on a given session.\<close>

lemmas eval_defs = new_session_def DHPy_open_def DHPy_close_def DHPy_unwrap_def
  DHPy_invalid_handle_def DHPy_free_def DHPy_free_raw_data_def DHPy_protect_raw_data_def
  evict_oldest_def install_handle_def mark_closed_def append_closed_def attach_raw_data_def
  new_generation_def get_info_def as_DebugHandle_def as_DHPy_def DHPy_sanity_check_def
  deref_def set_info_def info_of_def DHQueue_init_def DHQueue_append_def DHQueue_popfront_def
  DHQueue_remove_def NULL_def HPy_NULL_def HPy_IsNull_def LONG_MAX_def Let_def

lemmas ex_defs = ex_two_open_def ex_one_closed_def ex_evicted_def ex_guarded_def
  ex_released_def ex_gen_first_def ex_gen_checkpoint_def ex_gen_second_def
  ex_alone_closed_def ex_reused_def

lemma unwrap_open:
  assumes "\<not> HPy_IsNull dh" and "HPy_i dh AND 1 = 0"
    and "heap st (HPy_i dh) = Some h" and "\<not> is_closed h"
  shows "DHPy_unwrap st dh = Inr (uh h, st)"
  using assms
  by (simp add: DHPy_unwrap_def as_DebugHandle_def DHPy_sanity_check_def deref_def)

section \<open>The claims\<close>

text \<open>
  Claim C1, as amended.  A wrapper is rejected for as long as it is closed,
  that is, while it waits in the queue of closed wrappers.  For a handle
  \<open>dh\<close> that is not null:
  \<^item> if its wrapper is in the state closed (and its address passes the sanity
    check), \<^verbatim>\<open>DHPy_unwrap\<close> and a second \<^verbatim>\<open>DHPy_close\<close> both end where
    \<^verbatim>\<open>DHPy_invalid_handle\<close> ends, which does not return; in a session that
    carries the marker this is the fatal path, taken after the callback if one
    is registered.  Neither call returns the underlying handle;
  \<^item> this is so right after a close of \<open>dh\<close> that returned, which has put the
    wrapper into the queue of closed wrappers (it was not a member before:
    each wrapper belongs to one queue);
  \<^item> and it is so for every member of the queue of closed wrappers, in every
    state that a well allocated sequence of calls reaches from a new session.

  Nothing is said of a handle whose wrapper has left the queue of closed
  wrappers: its storage has been freed, or it holds the wrapper of a later
  open.
\<close>

theorem closed_handle_is_rejected:
  assumes "\<not> HPy_IsNull dh"
  shows "(heap st (HPy_i dh) = Some h \<and> is_closed h \<and> HPy_i dh AND 1 = 0 \<longrightarrow>
           (\<exists>e. DHPy_invalid_handle st dh = Inl e
              \<and> DHPy_unwrap st dh = Inl e
              \<and> DHPy_close st dh = Inl e
              \<and> (magic_number (info_of st) = HPY_DEBUG_MAGIC \<longrightarrow>
                   e = Fatal_invalid_handle dh
                         (\<not> HPy_IsNull (uh_on_invalid_handle (info_of st))))))
       \<and> (DHPy_close st0 dh = Inr st \<and> HPy_i dh \<notin> set (elems (closed_of st0)) \<longrightarrow>
             HPy_i dh \<in> set (elems (closed_of st))
           \<and> DHPy_unwrap st dh = Inl (Fatal_invalid_handle dh
                 (\<not> HPy_IsNull (uh_on_invalid_handle (info_of st0))))
           \<and> DHPy_close st dh = Inl (Fatal_invalid_handle dh
                 (\<not> HPy_IsNull (uh_on_invalid_handle (info_of st0)))))
       \<and> (well_allocated (new_session qmax budget cb) ops
            \<and> run (new_session qmax budget cb) ops = Inr st1
            \<and> a \<in> set (elems (closed_of st1)) \<longrightarrow>
             DHPy_unwrap st1 (as_DHPy a) =
               Inl (Fatal_invalid_handle (as_DHPy a) (\<not> HPy_IsNull cb))
           \<and> DHPy_close st1 (as_DHPy a) =
               Inl (Fatal_invalid_handle (as_DHPy a) (\<not> HPy_IsNull cb)))"
proof -
  have r: "\<exists>e. DHPy_invalid_handle s d = Inl e
              \<and> DHPy_unwrap s d = Inl e
              \<and> DHPy_close s d = Inl e
              \<and> (magic_number (info_of s) = HPY_DEBUG_MAGIC \<longrightarrow>
                   e = Fatal_invalid_handle d
                         (\<not> HPy_IsNull (uh_on_invalid_handle (info_of s))))"
    if "\<not> HPy_IsNull d" "heap s (HPy_i d) = Some h'" "is_closed h'" "HPy_i d AND 1 = 0"
    for s d h'
    using closed_is_rejected [OF that] by auto
  have a: "\<exists>e. DHPy_invalid_handle st dh = Inl e
              \<and> DHPy_unwrap st dh = Inl e
              \<and> DHPy_close st dh = Inl e
              \<and> (magic_number (info_of st) = HPY_DEBUG_MAGIC \<longrightarrow>
                   e = Fatal_invalid_handle dh
                         (\<not> HPy_IsNull (uh_on_invalid_handle (info_of st))))"
    if "heap st (HPy_i dh) = Some h" "is_closed h" "HPy_i dh AND 1 = 0"
    using r [OF assms that] .
  have b: "HPy_i dh \<in> set (elems (closed_of st))
           \<and> DHPy_unwrap st dh = Inl (Fatal_invalid_handle dh
                 (\<not> HPy_IsNull (uh_on_invalid_handle (info_of st0))))
           \<and> DHPy_close st dh = Inl (Fatal_invalid_handle dh
                 (\<not> HPy_IsNull (uh_on_invalid_handle (info_of st0))))"
    if c: "DHPy_close st0 dh = Inr st" and nq: "HPy_i dh \<notin> set (elems (closed_of st0))"
  proof -
    from close_marks_closed [OF c nq] obtain h' where
      "heap st (HPy_i dh) = Some h'" "is_closed h'" "HPy_i dh AND 1 = 0"
      and mg: "magic_number (info_of st) = HPY_DEBUG_MAGIC"
        "uh_on_invalid_handle (info_of st) = uh_on_invalid_handle (info_of st0)"
      by blast
    from r [OF assms this(1,2,3)] mg close_enqueues [OF c] show ?thesis by auto
  qed
  have c: "DHPy_unwrap st1 (as_DHPy a) =
               Inl (Fatal_invalid_handle (as_DHPy a) (\<not> HPy_IsNull cb))
           \<and> DHPy_close st1 (as_DHPy a) =
               Inl (Fatal_invalid_handle (as_DHPy a) (\<not> HPy_IsNull cb))"
    if w: "well_allocated (new_session qmax budget cb) ops"
      and ru: "run (new_session qmax budget cb) ops = Inr st1"
      and m: "a \<in> set (elems (closed_of st1))"
  proof -
    from run_quarantine [OF ru new_session_quarantine w] have ok: "quarantine_ok st1" .
    from quarantine_ok_member [OF ok m] obtain h' where
      h': "heap st1 a = Some h'" "is_closed h'" by blast
    from quarantine_ok_heap_dom [OF ok h'(1)] have al: "a \<noteq> NULL" "a AND 1 = 0" by simp_all
    from run_frame [OF ru] have "config_of st1 = (HPY_DEBUG_MAGIC, cb, qmax, budget)"
      by (simp add: new_session_proj)
    then have mg: "magic_number (info_of st1) = HPY_DEBUG_MAGIC"
        "uh_on_invalid_handle (info_of st1) = cb"
      by (simp_all add: config_of_def)
    have "\<not> HPy_IsNull (as_DHPy a)" "heap st1 (HPy_i (as_DHPy a)) = Some h'"
      "HPy_i (as_DHPy a) AND 1 = 0"
      using al h' by (simp_all add: HPy_IsNull_def as_DHPy_def NULL_def)
    from r [OF this(1,2) h'(2) this(3)] mg show ?thesis by auto
  qed
  from a b c show ?thesis by blast
qed

theorem closed_handle_is_rejected_witness:
  "\<not> HPy_IsNull (as_DHPy 8)
   \<and> heap ex_one_closed (HPy_i (as_DHPy 8)) = Some (\<lparr>uh = \<lparr>HPy_i = 1\<rparr>, generation = 0, is_closed = True, associated_data = 0, associated_data_size = 0\<rparr>) \<and> is_closed (\<lparr>uh = \<lparr>HPy_i = 1\<rparr>, generation = 0, is_closed = True, associated_data = 0, associated_data_size = 0\<rparr>)
   \<and> HPy_i (as_DHPy 8) AND 1 = 0
   \<and> magic_number (info_of ex_one_closed) = HPY_DEBUG_MAGIC
   \<and> DHPy_invalid_handle ex_one_closed (as_DHPy 8) = Inl (Fatal_invalid_handle (as_DHPy 8) False)
   \<and> DHPy_close ex_two_open (as_DHPy 8) = Inr ex_one_closed
   \<and> HPy_i (as_DHPy 8) \<notin> set (elems (closed_of ex_two_open))
   \<and> HPy_i (as_DHPy 8) \<in> set (elems (closed_of ex_one_closed))
   \<and> DHPy_unwrap ex_one_closed (as_DHPy 8) = Inl (Fatal_invalid_handle (as_DHPy 8)
         (\<not> HPy_IsNull (uh_on_invalid_handle (info_of ex_two_open))))
   \<and> DHPy_close ex_one_closed (as_DHPy 8) = Inl (Fatal_invalid_handle (as_DHPy 8)
         (\<not> HPy_IsNull (uh_on_invalid_handle (info_of ex_two_open))))
   \<and> well_allocated (new_session 1 100 HPy_NULL)
         [Op_open \<lparr>HPy_i = 1\<rparr> 8, Op_open \<lparr>HPy_i = 3\<rparr> 16, Op_close (as_DHPy 8)]
   \<and> run (new_session 1 100 HPy_NULL)
         [Op_open \<lparr>HPy_i = 1\<rparr> 8, Op_open \<lparr>HPy_i = 3\<rparr> 16, Op_close (as_DHPy 8)]
       = Inr ex_one_closed
   \<and> (8 :: addr) \<in> set (elems (closed_of ex_one_closed))
   \<and> DHPy_unwrap ex_one_closed (as_DHPy 8) =
        Inl (Fatal_invalid_handle (as_DHPy 8) (\<not> HPy_IsNull HPy_NULL))
   \<and> DHPy_close ex_one_closed (as_DHPy 8) =
        Inl (Fatal_invalid_handle (as_DHPy 8) (\<not> HPy_IsNull HPy_NULL))"
proof -
  have n: "\<not> HPy_IsNull (as_DHPy 8)" by (simp add: HPy_IsNull_def as_DHPy_def)
  have h: "heap ex_one_closed (HPy_i (as_DHPy 8)) = Some (\<lparr>uh = \<lparr>HPy_i = 1\<rparr>, generation = 0, is_closed = True, associated_data = 0, associated_data_size = 0\<rparr>)"
    by (simp add: as_DHPy_def ex_defs)
  have cl: "is_closed (\<lparr>uh = \<lparr>HPy_i = 1\<rparr>, generation = 0, is_closed = True, associated_data = 0, associated_data_size = 0\<rparr>)" by simp
  have al: "HPy_i (as_DHPy 8) AND 1 = 0" by (simp add: as_DHPy_def)
  have mg: "magic_number (info_of ex_one_closed) = HPY_DEBUG_MAGIC"
    by (simp add: info_of_def ex_defs)
  have c: "DHPy_close ex_two_open (as_DHPy 8) = Inr ex_one_closed"
    by (simp add: eval_defs ex_defs)
  have nq: "HPy_i (as_DHPy 8) \<notin> set (elems (closed_of ex_two_open))"
    by (simp add: closed_of_def info_of_def ex_defs)
  have cb: "uh_on_invalid_handle (info_of ex_one_closed) = HPy_NULL"
    by (simp add: info_of_def ex_defs)
  have w: "well_allocated (new_session 1 100 HPy_NULL)
         [Op_open \<lparr>HPy_i = 1\<rparr> 8, Op_open \<lparr>HPy_i = 3\<rparr> 16, Op_close (as_DHPy 8)]"
    by (simp add: fresh_storage_def eval_defs)
  have r: "run (new_session 1 100 HPy_NULL)
         [Op_open \<lparr>HPy_i = 1\<rparr> 8, Op_open \<lparr>HPy_i = 3\<rparr> 16, Op_close (as_DHPy 8)]
       = Inr ex_one_closed"
    by (simp add: eval_defs ex_defs)
  have m: "(8 :: addr) \<in> set (elems (closed_of ex_one_closed))"
    by (simp add: closed_of_def info_of_def ex_defs)
  note t = closed_handle_is_rejected [OF n, of ex_one_closed "(\<lparr>uh = \<lparr>HPy_i = 1\<rparr>, generation = 0, is_closed = True, associated_data = 0, associated_data_size = 0\<rparr>)" ex_two_open
      1 100 HPy_NULL "[Op_open \<lparr>HPy_i = 1\<rparr> 8, Op_open \<lparr>HPy_i = 3\<rparr> 16, Op_close (as_DHPy 8)]"
      ex_one_closed 8]
  from t h cl al mg
  have 1: "DHPy_invalid_handle ex_one_closed (as_DHPy 8) = Inl (Fatal_invalid_handle (as_DHPy 8)
         (\<not> HPy_IsNull (uh_on_invalid_handle (info_of ex_one_closed))))"
    by auto
  from t c nq
  have 2: "HPy_i (as_DHPy 8) \<in> set (elems (closed_of ex_one_closed))"
    "DHPy_unwrap ex_one_closed (as_DHPy 8) = Inl (Fatal_invalid_handle (as_DHPy 8)
         (\<not> HPy_IsNull (uh_on_invalid_handle (info_of ex_two_open))))"
    "DHPy_close ex_one_closed (as_DHPy 8) = Inl (Fatal_invalid_handle (as_DHPy 8)
         (\<not> HPy_IsNull (uh_on_invalid_handle (info_of ex_two_open))))"
    by blast+
  from t w r m
  have 3: "DHPy_unwrap ex_one_closed (as_DHPy 8) =
        Inl (Fatal_invalid_handle (as_DHPy 8) (\<not> HPy_IsNull HPy_NULL))"
    "DHPy_close ex_one_closed (as_DHPy 8) =
        Inl (Fatal_invalid_handle (as_DHPy 8) (\<not> HPy_IsNull HPy_NULL))"
    by blast+
  have i1: "DHPy_invalid_handle ex_one_closed (as_DHPy 8) = Inl (Fatal_invalid_handle (as_DHPy 8) False)"
    using 1 cb by (simp add: HPy_IsNull_def HPy_NULL_def)
  from n h cl al mg i1 c nq 2 w r m 3 show ?thesis by blast
qed

text \<open>
  Claim C1, as stated, fails: not every later unwrap of a handle that has been
  closed is rejected.  In a session with room for one closed wrapper, the
  wrapper at address 8 is opened for the underlying handle 1 and closed.  The
  queue of closed wrappers is full then, so the next open, for the underlying
  handle 3, reuses its storage (\<^verbatim>\<open>malloc\<close>, which would have returned the
  unused address 16, is not called) and returns the same handle.  An unwrap of
  the handle that has been closed now returns the underlying handle 3 and
  leaves the state as it is, and the wrapper is not marked closed.
\<close>

theorem closed_handle_reused_counterexample:
  "run (new_session 1 100 HPy_NULL) [Op_open \<lparr>HPy_i = 1\<rparr> 8, Op_close (as_DHPy 8)]
     = Inr ex_alone_closed
   \<and> well_allocated (new_session 1 100 HPy_NULL)
         [Op_open \<lparr>HPy_i = 1\<rparr> 8, Op_close (as_DHPy 8), Op_open \<lparr>HPy_i = 3\<rparr> 16]
   \<and> DHPy_unwrap ex_alone_closed (as_DHPy 8)
       = Inl (Fatal_invalid_handle (as_DHPy 8) False)
   \<and> DHPy_open ex_alone_closed \<lparr>HPy_i = 3\<rparr> 16 = Inr (as_DHPy 8, ex_reused)
   \<and> DHPy_unwrap ex_reused (as_DHPy 8) = Inr (\<lparr>HPy_i = 3\<rparr>, ex_reused)
   \<and> heap ex_reused (HPy_i (as_DHPy 8)) =
       Some \<lparr>uh = \<lparr>HPy_i = 3\<rparr>, generation = 0, is_closed = False,
             associated_data = 0, associated_data_size = 0\<rparr>"
  by (simp add: eval_defs ex_defs fresh_storage_def)

text \<open>
  Claim C2.  For a wrapper that is open (not null, its address passes the
  sanity check), \<^verbatim>\<open>DHPy_unwrap\<close> returns the stored underlying handle and
  leaves the state as it is, so any number of unwraps in a row return the
  same handle and change nothing.
\<close>

theorem unwrap_open_is_idempotent:
  assumes "\<not> HPy_IsNull dh" and "HPy_i dh AND 1 = 0"
    and "heap st (HPy_i dh) = Some h" and "\<not> is_closed h"
  shows "DHPy_unwrap st dh = Inr (uh h, st)
    \<and> run st (replicate n (Op_unwrap dh)) = Inr st"
proof -
  have u: "DHPy_unwrap st dh = Inr (uh h, st)"
    using assms by (rule unwrap_open)
  have "run st (replicate n (Op_unwrap dh)) = Inr st"
    by (induction n) (simp_all add: u)
  with u show ?thesis by simp
qed

theorem unwrap_open_is_idempotent_witness:
  "\<not> HPy_IsNull (as_DHPy 8) \<and> HPy_i (as_DHPy 8) AND 1 = 0
   \<and> heap ex_two_open (HPy_i (as_DHPy 8)) = Some (\<lparr>uh = \<lparr>HPy_i = 1\<rparr>, generation = 0, is_closed = False, associated_data = 0, associated_data_size = 0\<rparr>)
   \<and> \<not> is_closed (\<lparr>uh = \<lparr>HPy_i = 1\<rparr>, generation = 0, is_closed = False, associated_data = 0, associated_data_size = 0\<rparr>)
   \<and> DHPy_unwrap ex_two_open (as_DHPy 8) = Inr (uh (\<lparr>uh = \<lparr>HPy_i = 1\<rparr>, generation = 0, is_closed = False, associated_data = 0, associated_data_size = 0\<rparr>), ex_two_open)
   \<and> run ex_two_open (replicate 3 (Op_unwrap (as_DHPy 8))) = Inr ex_two_open"
proof -
  have n: "\<not> HPy_IsNull (as_DHPy 8)" by (simp add: HPy_IsNull_def as_DHPy_def)
  have al: "HPy_i (as_DHPy 8) AND 1 = 0" by (simp add: as_DHPy_def)
  have h: "heap ex_two_open (HPy_i (as_DHPy 8)) = Some (\<lparr>uh = \<lparr>HPy_i = 1\<rparr>, generation = 0, is_closed = False, associated_data = 0, associated_data_size = 0\<rparr>)"
    by (simp add: as_DHPy_def ex_defs)
  have o: "\<not> is_closed (\<lparr>uh = \<lparr>HPy_i = 1\<rparr>, generation = 0, is_closed = False, associated_data = 0, associated_data_size = 0\<rparr>)" by simp
  from unwrap_open_is_idempotent [OF n al h o, of 3] n al h o show ?thesis by blast
qed

text \<open>
  Claim C3.  In a session whose configured maximum is not negative, after
  any sequence of operations the size of the queue of closed wrappers (its
  counter and the number of its members) is at most the maximum, and the
  maximum is the configured one.  When the queue is full and a wrapper is
  closed, the oldest member leaves the queue at the front, the closed wrapper
  enters at the back, the queue is full again, the storage of the oldest
  member is freed by exactly one call and the wrapper is gone.
\<close>

theorem closed_queue_bounded:
  assumes "0 \<le> qmax" and "run (new_session qmax budget cb) ops = Inr st"
  shows "size_q (closed_of st) \<le> qmax \<and> int (length (elems (closed_of st))) \<le> qmax
    \<and> qmax_of st = qmax
    \<and> (DHPy_close st dh = Inr st' \<and> size_q (closed_of st) + 1 > qmax \<longrightarrow>
         (\<exists>oldest rest evs. elems (closed_of st) = oldest # rest
            \<and> elems (closed_of st') = rest @ [HPy_i dh]
            \<and> size_q (closed_of st') = qmax
            \<and> heap st' oldest = None
            \<and> trace st' = trace st @ evs \<and> freed evs = [oldest]))"
proof (cases "qmax = 0")
  case True
  from run_no_wrapper [OF assms(2)] True
  have 0: "heap st = Map.empty" "closed_of st = DHQueue_init" "qmax_of st = 0"
    by (simp_all add: new_session_proj)
  have "DHPy_close st dh \<noteq> Inr st'"
  proof
    assume "DHPy_close st dh = Inr st'"
    then show False by (rule close_cases) (use 0 in simp)
  qed
  with 0 True show ?thesis by (simp add: DHQueue_init_def)
next
  case False
  with assms(1) have m: "1 \<le> qmax" by simp
  have 0: "closed_queue_ok (new_session qmax budget cb)" "1 \<le> qmax_of (new_session qmax budget cb)"
    using m
    by (simp_all add: closed_queue_ok_def new_session_proj DHQueue_init_def DHQueue_sanity_check_def)
  from run_closed_queue_ok [OF assms(2) 0] have ok: "closed_queue_ok st" .
  from run_frame [OF assms(2)] config_limits [of st "new_session qmax budget cb"]
  have q: "qmax_of st = qmax"
    by (simp add: new_session_proj)
  have a: "size_q (closed_of st) \<le> qmax \<and> int (length (elems (closed_of st))) \<le> qmax"
    using ok q by (simp add: closed_queue_ok_def DHQueue_sanity_check_def)
  have b: "\<exists>oldest rest evs. elems (closed_of st) = oldest # rest
            \<and> elems (closed_of st') = rest @ [HPy_i dh]
            \<and> size_q (closed_of st') = qmax
            \<and> heap st' oldest = None
            \<and> trace st' = trace st @ evs \<and> freed evs = [oldest]"
    if c: "DHPy_close st dh = Inr st'" and f: "size_q (closed_of st) + 1 > qmax"
  proof -
    from ok q f have "size_q (closed_of st) = qmax" by (simp add: closed_queue_ok_def)
    with close_evicts [OF c ok] q f m show ?thesis by simp
  qed
  from a b q show ?thesis by blast
qed

theorem closed_queue_bounded_witness:
  "(0::int) \<le> 1
   \<and> run (new_session 1 100 HPy_NULL)
         [Op_open \<lparr>HPy_i = 1\<rparr> 8, Op_open \<lparr>HPy_i = 3\<rparr> 16, Op_close (as_DHPy 8)]
       = Inr ex_one_closed
   \<and> size_q (closed_of ex_one_closed) \<le> 1
   \<and> DHPy_close ex_one_closed (as_DHPy 16) = Inr ex_evicted
   \<and> size_q (closed_of ex_one_closed) + 1 > 1
   \<and> (\<exists>oldest rest evs. elems (closed_of ex_one_closed) = oldest # rest
         \<and> elems (closed_of ex_evicted) = rest @ [HPy_i (as_DHPy 16)]
         \<and> size_q (closed_of ex_evicted) = 1
         \<and> heap ex_evicted oldest = None
         \<and> trace ex_evicted = trace ex_one_closed @ evs \<and> freed evs = [oldest])"
proof -
  have one: "(0::int) \<le> 1" by simp
  have r: "run (new_session 1 100 HPy_NULL)
         [Op_open \<lparr>HPy_i = 1\<rparr> 8, Op_open \<lparr>HPy_i = 3\<rparr> 16, Op_close (as_DHPy 8)]
       = Inr ex_one_closed"
    by (simp add: eval_defs ex_defs)
  have c: "DHPy_close ex_one_closed (as_DHPy 16) = Inr ex_evicted"
    by (simp add: eval_defs ex_defs)
  have f: "size_q (closed_of ex_one_closed) + 1 > 1"
    by (simp add: closed_of_def info_of_def ex_defs)
  from closed_queue_bounded [OF one r, of "as_DHPy 16" ex_evicted] one r c f
  show ?thesis by blast
qed

text \<open>
  Claim C4.  In a session whose configured budget is not negative, after any
  sequence of operations the running total of protected bytes is at most the
  budget.  When a wrapper is closed whose raw data would push the total over
  the budget, the guard releases the data at once (one call of
  \<^verbatim>\<open>raw_data_free\<close>, no call of \<^verbatim>\<open>raw_data_protect\<close>), takes it away from the
  wrapper and leaves the total as it is; the close as a whole never raises the
  total, and leaves it unchanged when no wrapper is evicted.
\<close>

theorem protected_bytes_bounded:
  assumes "0 \<le> budget" and "run (new_session qmax budget cb) ops = Inr st"
  shows "protected_of st \<le> budget \<and> budget_of st = budget
    \<and> (DHPy_close st dh = Inr st' \<and> heap st (HPy_i dh) = Some h
         \<and> associated_data h \<noteq> NULL
         \<and> protected_of st + associated_data_size h > budget \<longrightarrow>
        (\<exists>st2 evs.
            DHPy_protect_raw_data (mark_closed st (HPy_i dh) h) (HPy_i dh) = Inr st2
          \<and> trace st2 = trace st @ [Ev_raw_data_free (associated_data h) (associated_data_size h)]
          \<and> protected_of st2 = protected_of st
          \<and> heap st2 (HPy_i dh) = Some (h\<lparr>is_closed := True, associated_data := NULL\<rparr>)
          \<and> trace st' = trace st2 @ evs
          \<and> (\<forall>d' n'. Ev_raw_data_protect d' n' \<notin> set evs)
          \<and> protected_of st' \<le> protected_of st
          \<and> (size_q (closed_of st) + 1 \<le> qmax_of st \<longrightarrow>
                protected_of st' = protected_of st \<and> evs = [])))"
proof -
  have "budget_ok (new_session qmax budget cb)"
    using assms(1) by (simp add: budget_ok_def new_session_proj)
  from run_budget [OF assms(2) this] have ok: "budget_ok st" .
  from run_frame [OF assms(2)] config_limits [of st "new_session qmax budget cb"]
  have b: "budget_of st = budget"
    by (simp add: new_session_proj)
  from ok b have a: "protected_of st \<le> budget" by (simp add: budget_ok_def)
  from a b close_over_budget [of st dh st', OF _ ok, of h] show ?thesis
    by (simp only:) blast
qed

theorem protected_bytes_bounded_witness:
  "(0::int) \<le> 100
   \<and> run (new_session 2 100 HPy_NULL)
         [Op_open \<lparr>HPy_i = 1\<rparr> 8, Op_attach (as_DHPy 8) 4096 60, Op_close (as_DHPy 8),
          Op_open \<lparr>HPy_i = 3\<rparr> 16, Op_attach (as_DHPy 16) 8192 50]
       = Inr ex_guarded
   \<and> protected_of ex_guarded \<le> 100 \<and> budget_of ex_guarded = 100
   \<and> DHPy_close ex_guarded (as_DHPy 16) = Inr ex_released
   \<and> heap ex_guarded (HPy_i (as_DHPy 16)) = Some (\<lparr>uh = \<lparr>HPy_i = 3\<rparr>, generation = 0, is_closed = False, associated_data = 8192, associated_data_size = 50\<rparr>)
   \<and> associated_data (\<lparr>uh = \<lparr>HPy_i = 3\<rparr>, generation = 0, is_closed = False, associated_data = 8192, associated_data_size = 50\<rparr>) \<noteq> NULL
   \<and> protected_of ex_guarded + associated_data_size (\<lparr>uh = \<lparr>HPy_i = 3\<rparr>, generation = 0, is_closed = False, associated_data = 8192, associated_data_size = 50\<rparr>) > 100
   \<and> (\<exists>st2 evs.
          DHPy_protect_raw_data (mark_closed ex_guarded (HPy_i (as_DHPy 16)) (\<lparr>uh = \<lparr>HPy_i = 3\<rparr>, generation = 0, is_closed = False, associated_data = 8192, associated_data_size = 50\<rparr>))
            (HPy_i (as_DHPy 16)) = Inr st2
        \<and> trace st2 = trace ex_guarded @
            [Ev_raw_data_free (associated_data (\<lparr>uh = \<lparr>HPy_i = 3\<rparr>, generation = 0, is_closed = False, associated_data = 8192, associated_data_size = 50\<rparr>)) (associated_data_size (\<lparr>uh = \<lparr>HPy_i = 3\<rparr>, generation = 0, is_closed = False, associated_data = 8192, associated_data_size = 50\<rparr>))]
        \<and> protected_of st2 = protected_of ex_guarded
        \<and> heap st2 (HPy_i (as_DHPy 16)) =
            Some ((\<lparr>uh = \<lparr>HPy_i = 3\<rparr>, generation = 0, is_closed = False, associated_data = 8192, associated_data_size = 50\<rparr>)\<lparr>is_closed := True, associated_data := NULL\<rparr>)
        \<and> trace ex_released = trace st2 @ evs
        \<and> (\<forall>d' n'. Ev_raw_data_protect d' n' \<notin> set evs)
        \<and> protected_of ex_released \<le> protected_of ex_guarded
        \<and> (size_q (closed_of ex_guarded) + 1 \<le> qmax_of ex_guarded \<longrightarrow>
              protected_of ex_released = protected_of ex_guarded \<and> evs = []))"
proof -
  have z: "(0::int) \<le> 100" by simp
  have r: "run (new_session 2 100 HPy_NULL)
         [Op_open \<lparr>HPy_i = 1\<rparr> 8, Op_attach (as_DHPy 8) 4096 60, Op_close (as_DHPy 8),
          Op_open \<lparr>HPy_i = 3\<rparr> 16, Op_attach (as_DHPy 16) 8192 50]
       = Inr ex_guarded"
    by (simp add: eval_defs ex_defs)
  have c: "DHPy_close ex_guarded (as_DHPy 16) = Inr ex_released"
    by (simp add: eval_defs ex_defs)
  have h: "heap ex_guarded (HPy_i (as_DHPy 16)) = Some (\<lparr>uh = \<lparr>HPy_i = 3\<rparr>, generation = 0, is_closed = False, associated_data = 8192, associated_data_size = 50\<rparr>)"
    by (simp add: as_DHPy_def ex_defs)
  have d: "associated_data (\<lparr>uh = \<lparr>HPy_i = 3\<rparr>, generation = 0, is_closed = False, associated_data = 8192, associated_data_size = 50\<rparr>) \<noteq> NULL"
    by (simp add: NULL_def)
  have o: "protected_of ex_guarded + associated_data_size (\<lparr>uh = \<lparr>HPy_i = 3\<rparr>, generation = 0, is_closed = False, associated_data = 8192, associated_data_size = 50\<rparr>) > 100"
    by (simp add: protected_of_def info_of_def ex_defs)
  from protected_bytes_bounded [OF z r, of "as_DHPy 16" ex_released "(\<lparr>uh = \<lparr>HPy_i = 3\<rparr>, generation = 0, is_closed = False, associated_data = 8192, associated_data_size = 50\<rparr>)"] z r c h d o
  show ?thesis by blast
qed

text \<open>
  Claim C5.  If a wrapper \<open>A\<close> is opened, then any sequence of operations
  runs, then a wrapper \<open>B\<close> is opened, the generation of \<open>A\<close> is the value
  of the counter when \<open>A\<close> was opened, the generation of \<open>B\<close> the value when
  \<open>B\<close> was opened, the first is at most the second, and the counter of the
  session never decreases on the way.
\<close>

theorem generations_non_decreasing:
  assumes "DHPy_open st u m = Inr (A, st1)" and "\<not> HPy_IsNull A"
    and "run st1 ops = Inr st2"
    and "DHPy_open st2 u' m' = Inr (B, st3)" and "\<not> HPy_IsNull B"
  shows "\<exists>hA hB. heap st1 (HPy_i A) = Some hA \<and> heap st3 (HPy_i B) = Some hB
    \<and> generation hA = gen_of st \<and> generation hB = gen_of st2
    \<and> generation hA \<le> generation hB
    \<and> gen_of st \<le> gen_of st1 \<and> gen_of st1 \<le> gen_of st2 \<and> gen_of st2 \<le> gen_of st3"
proof -
  from open_generation [OF assms(1,2)] obtain hA where
    a: "heap st1 (HPy_i A) = Some hA" "generation hA = gen_of st" by blast
  from open_generation [OF assms(4,5)] obtain hB where
    b: "heap st3 (HPy_i B) = Some hB" "generation hB = gen_of st2" by blast
  from open_frame [OF assms(1)] have 1: "gen_of st1 = gen_of st" by simp
  from run_frame [OF assms(3)] have 2: "gen_of st1 \<le> gen_of st2" by simp
  from open_frame [OF assms(4)] have 3: "gen_of st3 = gen_of st2" by simp
  from a b 1 2 3 show ?thesis by simp
qed

theorem generations_non_decreasing_witness:
  "DHPy_open (new_session 2 100 HPy_NULL) \<lparr>HPy_i = 1\<rparr> 8 = Inr (as_DHPy 8, ex_gen_first)
   \<and> \<not> HPy_IsNull (as_DHPy 8)
   \<and> run ex_gen_first [Op_new_generation] = Inr ex_gen_checkpoint
   \<and> DHPy_open ex_gen_checkpoint \<lparr>HPy_i = 3\<rparr> 16 = Inr (as_DHPy 16, ex_gen_second)
   \<and> \<not> HPy_IsNull (as_DHPy 16)
   \<and> (\<exists>hA hB. heap ex_gen_first (HPy_i (as_DHPy 8)) = Some hA
         \<and> heap ex_gen_second (HPy_i (as_DHPy 16)) = Some hB
         \<and> generation hA = gen_of (new_session 2 100 HPy_NULL)
         \<and> generation hB = gen_of ex_gen_checkpoint
         \<and> generation hA \<le> generation hB
         \<and> gen_of (new_session 2 100 HPy_NULL) \<le> gen_of ex_gen_first
         \<and> gen_of ex_gen_first \<le> gen_of ex_gen_checkpoint
         \<and> gen_of ex_gen_checkpoint \<le> gen_of ex_gen_second)"
proof -
  have a: "DHPy_open (new_session 2 100 HPy_NULL) \<lparr>HPy_i = 1\<rparr> 8 = Inr (as_DHPy 8, ex_gen_first)"
    by (simp add: eval_defs ex_defs)
  have na: "\<not> HPy_IsNull (as_DHPy 8)" by (simp add: HPy_IsNull_def as_DHPy_def)
  have r: "run ex_gen_first [Op_new_generation] = Inr ex_gen_checkpoint"
    by (simp add: eval_defs ex_defs)
  have b: "DHPy_open ex_gen_checkpoint \<lparr>HPy_i = 3\<rparr> 16 = Inr (as_DHPy 16, ex_gen_second)"
    by (simp add: eval_defs ex_defs)
  have nb: "\<not> HPy_IsNull (as_DHPy 16)" by (simp add: HPy_IsNull_def as_DHPy_def)
  from generations_non_decreasing [OF a na r b nb] a na r b nb show ?thesis by blast
qed

text \<open>
  Claim C6, as amended.  A handle whose low bit is 1 (a raw underlying
  reference) is rejected by \<^verbatim>\<open>DHPy_sanity_check\<close> wherever it is taken for a
  wrapped one: the cast and \<^verbatim>\<open>DHPy_unwrap\<close> fail on the assertion in every
  state, so before any wrapper is read.  A handle that is not null and whose
  low bit is 0 (a wrapped reference) is rejected by \<^verbatim>\<open>UHPy_sanity_check\<close> when
  \<^verbatim>\<open>HPY_DEBUG_ENABLE_UHPY_SANITY_CHECK\<close> is defined; when it is not defined, the
  default, \<^verbatim>\<open>UHPy_sanity_check\<close> accepts every handle.
\<close>

theorem sanity_checks_on_low_bit:
  "(HPy_i dh AND 1 = 1 \<longrightarrow>
      DHPy_sanity_check dh = Inl Assertion_failed
    \<and> as_DebugHandle dh = Inl Assertion_failed
    \<and> DHPy_unwrap st dh = Inl Assertion_failed)
   \<and> (HPy_i u AND 1 = 0 \<and> \<not> HPy_IsNull u \<longrightarrow>
        UHPy_sanity_check True u = Inl Assertion_failed)
   \<and> UHPy_sanity_check False u = Inr ()"
  by (auto simp: as_DebugHandle_def DHPy_unwrap_def DHPy_sanity_check_def
        UHPy_sanity_check_def HPy_IsNull_def)

theorem sanity_checks_on_low_bit_witness:
  "HPy_i \<lparr>HPy_i = 1\<rparr> AND 1 = (1 :: 64 word)
   \<and> DHPy_sanity_check \<lparr>HPy_i = 1\<rparr> = Inl Assertion_failed
   \<and> as_DebugHandle \<lparr>HPy_i = 1\<rparr> = Inl Assertion_failed
   \<and> DHPy_unwrap ex_two_open \<lparr>HPy_i = 1\<rparr> = Inl Assertion_failed
   \<and> HPy_i (as_DHPy 8) AND 1 = 0 \<and> \<not> HPy_IsNull (as_DHPy 8)
   \<and> UHPy_sanity_check True (as_DHPy 8) = Inl Assertion_failed
   \<and> UHPy_sanity_check False (as_DHPy 8) = Inr ()"
proof -
  have a: "HPy_i \<lparr>HPy_i = 1\<rparr> AND 1 = (1 :: 64 word)" by simp
  have b: "HPy_i (as_DHPy 8) AND 1 = 0" "\<not> HPy_IsNull (as_DHPy 8)"
    by (simp_all add: as_DHPy_def HPy_IsNull_def)
  from sanity_checks_on_low_bit [of "\<lparr>HPy_i = 1\<rparr>" ex_two_open "as_DHPy 8"] a b
  show ?thesis by blast
qed

text \<open>
  Claim C6, as stated, fails: with \<^verbatim>\<open>HPY_DEBUG_ENABLE_UHPY_SANITY_CHECK\<close> not
  defined, the wrapped reference of the wrapper at address 16 (low bit 0, not
  null) passes \<^verbatim>\<open>UHPy_sanity_check\<close>.
\<close>

theorem uhpy_sanity_check_disabled_counterexample:
  "HPy_i (as_DHPy 16) AND 1 = 0 \<and> \<not> HPy_IsNull (as_DHPy 16)
   \<and> UHPy_sanity_check False (as_DHPy 16) = Inr ()"
  by (simp add: UHPy_sanity_check_def HPy_IsNull_def as_DHPy_def)

text \<open>
  Claim C7.  \<^verbatim>\<open>get_info\<close> returns the session of a context exactly when the
  stored \<^verbatim>\<open>magic_number\<close> is \<^verbatim>\<open>HPY_DEBUG_MAGIC\<close>, and what it returns is that
  session; for a context whose private data does not carry the marker the
  assertion fails and no session is returned.
\<close>

theorem get_info_validates_magic:
  "(get_info c = Inr info \<longleftrightarrow>
      info = ctx_private c \<and> magic_number info = HPY_DEBUG_MAGIC)
   \<and> (magic_number (ctx_private c) \<noteq> HPY_DEBUG_MAGIC \<longrightarrow>
        get_info c = Inl Assertion_failed)"
  by (auto simp: get_info_def Let_def)

theorem get_info_validates_magic_witness:
  "magic_number (info_of default_session) = HPY_DEBUG_MAGIC
   \<and> get_info (dctx default_session) = Inr (info_of default_session)
   \<and> magic_number (ctx_private \<lparr>ctx_private = (info_of default_session)\<lparr>magic_number := 0\<rparr>\<rparr>)
       \<noteq> HPY_DEBUG_MAGIC
   \<and> get_info \<lparr>ctx_private = (info_of default_session)\<lparr>magic_number := 0\<rparr>\<rparr>
       = Inl Assertion_failed"
proof -
  have a: "magic_number (info_of default_session) = HPY_DEBUG_MAGIC"
    by (simp add: default_session_def new_session_def info_of_def)
  have b: "magic_number (ctx_private \<lparr>ctx_private = (info_of default_session)\<lparr>magic_number := 0\<rparr>\<rparr>)
       \<noteq> HPY_DEBUG_MAGIC"
    by (simp add: HPY_DEBUG_MAGIC_def)
  from get_info_validates_magic [of "dctx default_session" "info_of default_session"]
    get_info_validates_magic
      [of "\<lparr>ctx_private = (info_of default_session)\<lparr>magic_number := 0\<rparr>\<rparr>"] a b
  show ?thesis by (simp add: info_of_def)
qed

text \<open>
  Claim C8.  The session constructed with the default configuration has a
  maximum of 1024 closed wrappers and a budget of 10485760 protected bytes
  (10 MiB), and no sequence of operations on a session changes its two
  limits.
\<close>

theorem default_limits:
  "qmax_of default_session = 1024 \<and> budget_of default_session = 10485760
   \<and> (run default_session ops = Inr st \<longrightarrow> qmax_of st = 1024 \<and> budget_of st = 10485760)
   \<and> (run st0 ops' = Inr st1 \<longrightarrow> qmax_of st1 = qmax_of st0 \<and> budget_of st1 = budget_of st0)"
proof -
  have d: "qmax_of default_session = 1024" "budget_of default_session = 10485760"
    by (simp_all add: default_session_def new_session_proj
          DEFAULT_CLOSED_HANDLES_QUEUE_MAX_SIZE_def DEFAULT_PROTECTED_RAW_DATA_MAX_SIZE_def)
  have i: "qmax_of s' = qmax_of s \<and> budget_of s' = budget_of s" if "run s xs = Inr s'" for s s' xs
    using run_frame [OF that] config_limits [of s' s] by simp
  from d i [of default_session ops st] i [of st0 ops' st1] show ?thesis by simp
qed

theorem default_limits_witness:
  "run default_session [Op_new_generation]
     = Inr (set_info default_session ((info_of default_session)\<lparr>current_generation := 1\<rparr>))
   \<and> qmax_of (set_info default_session ((info_of default_session)\<lparr>current_generation := 1\<rparr>))
       = 1024
   \<and> budget_of (set_info default_session ((info_of default_session)\<lparr>current_generation := 1\<rparr>))
       = 10485760
   \<and> run ex_two_open [Op_close (as_DHPy 8)] = Inr ex_one_closed
   \<and> qmax_of ex_one_closed = qmax_of ex_two_open
   \<and> budget_of ex_one_closed = budget_of ex_two_open"
proof -
  have a: "run default_session [Op_new_generation]
     = Inr (set_info default_session ((info_of default_session)\<lparr>current_generation := 1\<rparr>))"
    by (simp add: default_session_def eval_defs)
  have b: "run ex_two_open [Op_close (as_DHPy 8)] = Inr ex_one_closed"
    by (simp add: eval_defs ex_defs)
  from default_limits [of "[Op_new_generation]"
      "set_info default_session ((info_of default_session)\<lparr>current_generation := 1\<rparr>)"
      ex_two_open "[Op_close (as_DHPy 8)]" ex_one_closed] a b
  show ?thesis by blast
qed

text \<open>
  Claim C9.  In every state, whatever wrappers exist, \<^verbatim>\<open>DHPy_unwrap\<close> of
  \<^verbatim>\<open>HPy_NULL\<close> returns \<^verbatim>\<open>HPy_NULL\<close> and leaves the state as it is: no failure
  and no invalid-handle path, and the same result for every content \<open>hp\<close> of
  the store of wrappers; \<^verbatim>\<open>DHPy_sanity_check\<close> accepts \<^verbatim>\<open>HPy_NULL\<close>.
\<close>

theorem unwrap_null_is_noop:
  "DHPy_unwrap st HPy_NULL = Inr (HPy_NULL, st)
   \<and> DHPy_unwrap (st\<lparr>heap := hp\<rparr>) HPy_NULL = Inr (HPy_NULL, st\<lparr>heap := hp\<rparr>)
   \<and> DHPy_sanity_check HPy_NULL = Inr ()"
  by (simp add: DHPy_unwrap_def HPy_IsNull_def HPy_NULL_def DHPy_sanity_check_def)

text \<open>
  Claim C10.  The casts are inverse to each other: for the address \<open>p\<close> of a
  wrapper (wrappers are aligned, so the low bit of \<open>p\<close> is 0) the cast of
  \<open>as_DHPy p\<close> back to a wrapper returns \<open>p\<close>, and for a handle \<open>d\<close> whose
  low bit is 0 the cast to a wrapper returns an address whose handle is \<open>d\<close>.
\<close>

theorem casts_are_inverse:
  "(p AND 1 = 0 \<longrightarrow> as_DebugHandle (as_DHPy p) = Inr p)
   \<and> (HPy_i d AND 1 = 0 \<longrightarrow> (\<exists>q. as_DebugHandle d = Inr q \<and> as_DHPy q = d))"
  by (simp add: as_DebugHandle_def as_DHPy_def DHPy_sanity_check_def)

theorem casts_are_inverse_witness:
  "(8 :: addr) AND 1 = 0 \<and> as_DebugHandle (as_DHPy 8) = Inr 8
   \<and> HPy_i \<lparr>HPy_i = 16\<rparr> AND 1 = 0
   \<and> (\<exists>q. as_DebugHandle \<lparr>HPy_i = 16\<rparr> = Inr q \<and> as_DHPy q = \<lparr>HPy_i = 16\<rparr>)"
proof -
  have a: "(8 :: addr) AND 1 = 0" by simp
  have b: "HPy_i \<lparr>HPy_i = 16\<rparr> AND 1 = (0 :: 64 word)" by simp
  from casts_are_inverse [of 8 "\<lparr>HPy_i = 16\<rparr>"] a b show ?thesis by blast
qed

end
